theory Spec2Isabelle
  imports Complex_Main "HOL-Library.Word"
begin

unbundle bit_operations_syntax

section \<open>The AllSensors DLV driver (AllSensors\_DLV.h, AllSensors\_DLV.cpp)\<close>

text \<open>
  The driver reads a four-byte frame from a two-wire bus, cuts it into a 2-bit status, a
  14-bit pressure code and an 11-bit temperature code, and turns the two codes into a
  pressure and a temperature in the configured units.

  Conventions of the embedding:
  \<^item> \<open>uint8_t\<close>, \<open>uint16_t\<close> and \<open>unsigned long\<close> are \<open>8 word\<close>, \<open>16 word\<close> and
    \<open>32 word\<close> (the width of \<open>unsigned long\<close> on the Arduino targets); a widening
    cast is \<open>ucast\<close>, the narrowing of the \<open>int\<close> that \<open>TwoWire::read\<close> returns to
    \<open>uint8_t\<close> is \<open>word_of_int\<close>. The shifts of the decoder stay below \<open>2 ^ 15\<close>, so the
    integer promotions of C++ do not change their results.
  \<^item> The unscoped enums are the integer values of their enumerators (the character codes
    the header gives them), so that a selector outside the enumerated set, which C++
    lets a caller pass, is a value of the model too.
  \<^item> The driver is modelled twice as far as \<open>float\<close> and \<open>double\<close> go. In the
    record \<open>sensor\<close> and the functions on it a \<open>float\<close> or \<open>double\<close> value is the real
    number it denotes and the arithmetic is exact: this is the reading of the formulas,
    the constants and the control flow. The pressure path (the constructor's \<open>switch\<close>
    and \<open>transferPressure\<close>) is modelled a second time, with the suffix \<open>_fp\<close>, in binary
    floating point with rounding, overflow to infinity and NaN; there \<open>float\<close> is binary32
    and \<open>double\<close> is a parameter, binary32 (as on AVR) or binary64. The two are related by
    \<open>transferPressure_fp_refines\<close>. Every integer the driver converts to \<open>float\<close> is
    below \<open>2 ^ 24\<close>, where the conversion is exact.
  \<^item> The class is the record \<open>sensor\<close>. Its member \<open>bus\<close> stands for the state of the
    \<open>TwoWire\<close> object the pointer refers to. The Wire library is not part of the
    repository: its three member functions are the parameter \<open>'b TwoWire\<close>.
  \<^item> \<open>raw_data[4]\<close> is a function from the index to the byte; the driver only ever
    touches the indices 0 to 3.
\<close>

subsection \<open>Types and constants\<close>

type_synonym uint8_t = "8 word"
type_synonym uint16_t = "16 word"
type_synonym unsigned_long = "32 word"
type_synonym float = real

type_synonym SensorType = int
type_synonym Status = int
type_synonym PressureUnit = int
type_synonym TemperatureUnit = int

definition I2C_ADDRESS :: uint8_t where
  "I2C_ADDRESS = 0x28"

definition GAGE :: SensorType where
  "GAGE = 71"

definition DIFFERENTIAL :: SensorType where
  "DIFFERENTIAL = 68"

definition ABSOLUTE :: SensorType where
  "ABSOLUTE = 65"

definition CURRENT :: Status where
  "CURRENT = 0"

definition RESERVED :: Status where
  "RESERVED = 1"

definition STALE_DATA :: Status where
  "STALE_DATA = 2"

definition ERROR :: Status where
  "ERROR = 3"

definition PSI :: PressureUnit where
  "PSI = 76"

definition IN_H2O :: PressureUnit where
  "IN_H2O = 72"

definition PASCAL :: PressureUnit where
  "PASCAL = 80"

definition CELCIUS :: TemperatureUnit where
  "CELCIUS = 67"

definition FAHRENHEIT :: TemperatureUnit where
  "FAHRENHEIT = 70"

definition KELVIN :: TemperatureUnit where
  "KELVIN = 75"

definition READ_LENGTH :: uint8_t where
  "READ_LENGTH = 4"

definition FULL_SCALE_REF :: uint16_t where
  "FULL_SCALE_REF = push_bit 14 1"

subsection \<open>The bus and the object\<close>

text \<open>
  The member functions of \<open>TwoWire\<close> the driver calls, each taking the state of the bus
  and returning its result with the new state.
\<close>

record 'b TwoWire =
  requestFrom :: "uint8_t \<Rightarrow> uint8_t \<Rightarrow> 'b \<Rightarrow> uint8_t \<times> 'b"
  read :: "'b \<Rightarrow> int \<times> 'b"
  endTransmission :: "'b \<Rightarrow> uint8_t \<times> 'b"

record 'b sensor =
  bus :: 'b
  type :: SensorType
  raw_data :: "nat \<Rightarrow> uint8_t"
  raw_p :: uint16_t
  raw_t :: uint16_t
  pressure_max :: float
  pressure_range :: float
  pressure_zero_ref :: float
  pressure_unit :: PressureUnit
  temperature_unit :: TemperatureUnit
  status :: Status
  pressure :: float
  temperature :: float

subsection \<open>Field extraction\<close>

definition extractStatus :: "'b sensor \<Rightarrow> Status" where
  "extractStatus s = uint (drop_bit 6 (raw_data s 0 AND 0b11000000))"

definition extractIntegerPressure :: "'b sensor \<Rightarrow> uint16_t" where
  "extractIntegerPressure s =
     push_bit 8 (ucast (raw_data s 0 AND 0b00111111) :: uint16_t) OR (ucast (raw_data s 1) :: uint16_t)"

definition extractIntegerTemperature :: "'b sensor \<Rightarrow> uint16_t" where
  "extractIntegerTemperature s =
     push_bit 3 (ucast (raw_data s 2) :: uint16_t) OR drop_bit 5 (ucast (raw_data s 3 AND 0b11100000) :: uint16_t)"

subsection \<open>Transfer functions and unit conversion\<close>

text \<open>
  The four functions with exact arithmetic. \<open>transferPressure\<close> gives the value of the
  datasheet formula before any rounding; what the binary32 code returns, with rounding,
  an infinite span and NaN, is \<open>transferPressure_fp\<close> below.
\<close>

definition transferPressure :: "'b sensor \<Rightarrow> unsigned_long \<Rightarrow> float" where
  "transferPressure s raw_value =
     1.25 * ((real (unat raw_value) - pressure_zero_ref s) / real (unat FULL_SCALE_REF)) * pressure_range s"

definition transferTemperature :: "'b sensor \<Rightarrow> unsigned_long \<Rightarrow> float" where
  "transferTemperature s raw_value = real (unat raw_value) * (200.0 / 2047.0) - 50.0"

definition convertPressure :: "'b sensor \<Rightarrow> float \<Rightarrow> float" where
  "convertPressure s psi =
     (if pressure_unit s = PASCAL then psi * 6894.75729
      else if pressure_unit s = IN_H2O then psi * 27.679904
      else psi)"

definition convertTemperature :: "'b sensor \<Rightarrow> float \<Rightarrow> float" where
  "convertTemperature s degree_c =
     (if temperature_unit s = FAHRENHEIT then degree_c * 1.8 + 32.0
      else if temperature_unit s = KELVIN then degree_c + 273.15
      else degree_c)"

subsection \<open>Construction and the setters\<close>

text \<open>
  The constructor's first argument is the storage the object is built in. The members
  the constructor does not write (\<open>status\<close>, \<open>pressure\<close>, \<open>temperature\<close>, and
  \<open>pressure_zero_ref\<close> and \<open>pressure_range\<close> when the \<open>switch\<close> matches no case) keep
  whatever that storage held. \<open>raw_data\<close>, \<open>raw_p\<close> and \<open>raw_t\<close> have default member
  initialisers. The span of a DIFFERENTIAL sensor is the exact product here; the binary32
  product, which is infinite for a rating of magnitude \<open>2 ^ 127\<close> or more, is in
  \<open>AllSensors_DLV_fp\<close> below.
\<close>

definition AllSensors_DLV :: "'b sensor \<Rightarrow> 'b \<Rightarrow> SensorType \<Rightarrow> float \<Rightarrow> 'b sensor" where
  "AllSensors_DLV mem b t p_max =
     (let s = mem\<lparr>raw_data := (\<lambda>i. 0), raw_p := 0, raw_t := 0,
                  pressure_unit := PSI, temperature_unit := CELCIUS\<rparr>;
          s = s\<lparr>bus := b\<rparr>;
          s = s\<lparr>type := t\<rparr>;
          s = s\<lparr>pressure_max := p_max\<rparr>
      in if t = GAGE \<or> t = ABSOLUTE then
           s\<lparr>pressure_zero_ref := 1638, pressure_range := p_max\<rparr>
         else if t = DIFFERENTIAL then
           s\<lparr>pressure_zero_ref := 8192, pressure_range := p_max * 2\<rparr>
         else s)"

definition setPressureUnit :: "PressureUnit \<Rightarrow> 'b sensor \<Rightarrow> 'b sensor" where
  "setPressureUnit u s = s\<lparr>pressure_unit := u\<rparr>"

definition setTemperatureUnit :: "TemperatureUnit \<Rightarrow> 'b sensor \<Rightarrow> 'b sensor" where
  "setTemperatureUnit u s = s\<lparr>temperature_unit := u\<rparr>"

subsection \<open>Acquisition\<close>

text \<open>
  The \<open>for\<close> loop of \<open>readData\<close>, from index \<open>i\<close> on: one \<open>read\<close> per index below
  \<open>READ_LENGTH\<close>, each result narrowed to a byte and stored.
\<close>

function readLoop :: "'b TwoWire \<Rightarrow> nat \<Rightarrow> 'b sensor \<Rightarrow> 'b sensor" where
  "readLoop w i s =
     (if i < unat READ_LENGTH then
        (let (v, b) = read w (bus s)
         in readLoop w (i + 1) (s\<lparr>bus := b, raw_data := (raw_data s)(i := word_of_int v)\<rparr>))
      else s)"
  by pat_completeness auto
termination
  by (relation "measure (\<lambda>(w, i, s). unat READ_LENGTH - i)") auto

declare readLoop.simps [simp del]

definition readData :: "'b TwoWire \<Rightarrow> 'b sensor \<Rightarrow> bool \<times> 'b sensor" where
  "readData w s =
     (let s = s\<lparr>bus := snd (requestFrom w I2C_ADDRESS READ_LENGTH (bus s))\<rparr>;
          s = readLoop w 0 s;
          s = s\<lparr>bus := snd (endTransmission w (bus s))\<rparr>;
          s = s\<lparr>status := extractStatus s\<rparr>;
          s = s\<lparr>raw_p := extractIntegerPressure s\<rparr>;
          s = s\<lparr>raw_t := extractIntegerTemperature s\<rparr>;
          s = s\<lparr>pressure := convertPressure s (transferPressure s (ucast (raw_p s)))\<rparr>;
          s = s\<lparr>temperature := convertTemperature s (transferTemperature s (ucast (raw_t s)))\<rparr>
      in (status s = ERROR, s))"

subsection \<open>The pre-configured models\<close>

definition AllSensors_DLV_005D :: "'b sensor \<Rightarrow> 'b \<Rightarrow> 'b sensor" where
  "AllSensors_DLV_005D mem b = AllSensors_DLV mem b DIFFERENTIAL 5.0"

definition AllSensors_DLV_015D :: "'b sensor \<Rightarrow> 'b \<Rightarrow> 'b sensor" where
  "AllSensors_DLV_015D mem b = AllSensors_DLV mem b DIFFERENTIAL 15.0"

definition AllSensors_DLV_030D :: "'b sensor \<Rightarrow> 'b \<Rightarrow> 'b sensor" where
  "AllSensors_DLV_030D mem b = AllSensors_DLV mem b DIFFERENTIAL 30.0"

definition AllSensors_DLV_060D :: "'b sensor \<Rightarrow> 'b \<Rightarrow> 'b sensor" where
  "AllSensors_DLV_060D mem b = AllSensors_DLV mem b DIFFERENTIAL 60.0"

definition AllSensors_DLV_005G :: "'b sensor \<Rightarrow> 'b \<Rightarrow> 'b sensor" where
  "AllSensors_DLV_005G mem b = AllSensors_DLV mem b GAGE 5.0"

definition AllSensors_DLV_015G :: "'b sensor \<Rightarrow> 'b \<Rightarrow> 'b sensor" where
  "AllSensors_DLV_015G mem b = AllSensors_DLV mem b GAGE 15.0"

definition AllSensors_DLV_030G :: "'b sensor \<Rightarrow> 'b \<Rightarrow> 'b sensor" where
  "AllSensors_DLV_030G mem b = AllSensors_DLV mem b GAGE 30.0"

definition AllSensors_DLV_060G :: "'b sensor \<Rightarrow> 'b \<Rightarrow> 'b sensor" where
  "AllSensors_DLV_060G mem b = AllSensors_DLV mem b GAGE 60.0"

definition AllSensors_DLV_015A :: "'b sensor \<Rightarrow> 'b \<Rightarrow> 'b sensor" where
  "AllSensors_DLV_015A mem b = AllSensors_DLV mem b ABSOLUTE 15.0"

definition AllSensors_DLV_030A :: "'b sensor \<Rightarrow> 'b \<Rightarrow> 'b sensor" where
  "AllSensors_DLV_030A mem b = AllSensors_DLV mem b ABSOLUTE 30.0"

subsection \<open>A transport and a storage to run the driver on\<close>

text \<open>
  A transport for running the driver on a given frame: the bus holds the values still
  to be read, \<open>read\<close> hands out the next one and, as \<open>TwoWire::read\<close> does, -1 when
  nothing is left.
\<close>

definition queueWire :: "int list TwoWire" where
  "queueWire =
     \<lparr>requestFrom = (\<lambda>a n q. (n, q)),
      read = (\<lambda>q. case q of [] \<Rightarrow> (-1, []) | v # q' \<Rightarrow> (v, q')),
      endTransmission = (\<lambda>q. (0, q))\<rparr>"

text \<open>Zero-filled storage for an object on that transport.\<close>

definition zeroMem :: "int list sensor" where
  "zeroMem =
     \<lparr>bus = [], type = 0, raw_data = (\<lambda>i. 0), raw_p = 0, raw_t = 0,
      pressure_max = 0, pressure_range = 0, pressure_zero_ref = 0,
      pressure_unit = 0, temperature_unit = 0,
      status = 0, pressure = 0, temperature = 0\<rparr>"

section \<open>The pressure path in binary floating point\<close>

text \<open>
  A binary format has a precision in bits and a range of exponents; binary32 and binary64
  are those of IEEE 754. A value is a real number of the format, an infinity with its
  sign (\<open>True\<close> for the negative one) or NaN; the operations return numbers of their
  format, and \<open>is_binary32\<close> says of an argument that it is one. The two zeros of IEEE 754 are one value
  here: they compare equal, and the driver has no operation whose result depends on the
  sign of a zero (its only divisor is the constant 16384).
\<close>

record fmt =
  prec :: nat
  emin :: int
  emax :: int

definition binary32 :: fmt where
  "binary32 = \<lparr>prec = 24, emin = - 126, emax = 127\<rparr>"

definition binary64 :: fmt where
  "binary64 = \<lparr>prec = 53, emin = - 1022, emax = 1023\<rparr>"

definition valid :: "fmt \<Rightarrow> bool" where
  "valid f = (0 < prec f \<and> emin f \<le> emax f)"

datatype fp = Finite real | Infinity bool | NaN

text \<open>
  The exponent of the binade of \<open>a\<close>, searched upwards from \<open>emin\<close> and not beyond \<open>emax\<close>:
  the largest \<open>e\<close> in that range with \<open>2 ^ e \<le> a\<close>, and \<open>emin\<close> for the subnormal numbers
  and zero.
\<close>

fun expo_from :: "nat \<Rightarrow> int \<Rightarrow> real \<Rightarrow> int" where
  "expo_from 0 e a = e"
| "expo_from (Suc n) e a = (if 2 powi (e + 1) \<le> a then expo_from n (e + 1) a else e)"

definition expo :: "fmt \<Rightarrow> real \<Rightarrow> int" where
  "expo f a = expo_from (nat (emax f - emin f)) (emin f) a"

text \<open>
  Rounding to nearest with ties to even: \<open>x\<close> is rounded to a multiple of the unit in
  the last place of its binade, and the result is an infinity when it reaches
  \<open>2 ^ (emax + 1)\<close>.
\<close>

definition round_half_even :: "real \<Rightarrow> int" where
  "round_half_even q =
     (let n = \<lfloor>q\<rfloor>; r = q - of_int n
      in if r < 1 / 2 then n else if 1 / 2 < r then n + 1 else if even n then n else n + 1)"

definition round_to :: "fmt \<Rightarrow> real \<Rightarrow> fp" where
  "round_to f x =
     (let u = 2 powi (expo f \<bar>x\<bar> - int (prec f) + 1);
          y = of_int (round_half_even (x / u)) * u
      in if 2 powi (emax f + 1) \<le> \<bar>y\<bar> then Infinity (x < 0) else Finite y)"

definition is_binary32 :: "real \<Rightarrow> bool" where
  "is_binary32 x = (round_to binary32 x = Finite x)"

text \<open>
  Multiplication, subtraction and division in a format. A zero divisor counts as +0.
\<close>

fun fmul :: "fmt \<Rightarrow> fp \<Rightarrow> fp \<Rightarrow> fp" where
  "fmul f (Finite x) (Finite y) = round_to f (x * y)"
| "fmul f (Finite x) (Infinity t) = (if x = 0 then NaN else Infinity ((x < 0) \<noteq> t))"
| "fmul f (Infinity s) (Finite y) = (if y = 0 then NaN else Infinity (s \<noteq> (y < 0)))"
| "fmul f (Infinity s) (Infinity t) = Infinity (s \<noteq> t)"
| "fmul f NaN b = NaN"
| "fmul f a NaN = NaN"

fun fsub :: "fmt \<Rightarrow> fp \<Rightarrow> fp \<Rightarrow> fp" where
  "fsub f (Finite x) (Finite y) = round_to f (x - y)"
| "fsub f (Finite x) (Infinity t) = Infinity (\<not> t)"
| "fsub f (Infinity s) (Finite y) = Infinity s"
| "fsub f (Infinity s) (Infinity t) = (if s = t then NaN else Infinity s)"
| "fsub f NaN b = NaN"
| "fsub f a NaN = NaN"

fun fdiv :: "fmt \<Rightarrow> fp \<Rightarrow> fp \<Rightarrow> fp" where
  "fdiv f (Finite x) (Finite y) =
     (if y = 0 then (if x = 0 then NaN else Infinity (x < 0)) else round_to f (x / y))"
| "fdiv f (Finite x) (Infinity t) = Finite 0"
| "fdiv f (Infinity s) (Finite y) = Infinity (s \<noteq> (y < 0))"
| "fdiv f (Infinity s) (Infinity t) = NaN"
| "fdiv f NaN b = NaN"
| "fdiv f a NaN = NaN"

text \<open>
  The conversions of C++: an \<open>int\<close> and an \<open>unsigned long\<close> to \<open>float\<close>, and a \<open>double\<close>
  to \<open>float\<close>. The promotion of a \<open>float\<close> to \<open>double\<close> changes no value and is not
  written.
\<close>

definition float_of_int :: "int \<Rightarrow> fp" where
  "float_of_int i = round_to binary32 (of_int i)"

definition float_of_ulong :: "unsigned_long \<Rightarrow> fp" where
  "float_of_ulong v = round_to binary32 (real (unat v))"

fun float_of_double :: "fp \<Rightarrow> fp" where
  "float_of_double (Finite x) = round_to binary32 x"
| "float_of_double (Infinity s) = Infinity s"
| "float_of_double NaN = NaN"

text \<open>
  The three \<open>float\<close> members the pressure path reads and writes, the constructor's
  \<open>switch\<close> on them (cpp:21-33), and \<open>transferPressure\<close> (h:108-112). In
  \<open>1.25 * (((float)raw_value - pressure_zero_ref) / FULL_SCALE_REF) * pressure_range\<close> the
  subtraction and the division are \<open>float\<close> operations, the two multiplications are
  \<open>double\<close> operations because the literal 1.25 is a \<open>double\<close>, and the \<open>return\<close> converts
  to \<open>float\<close>. \<open>dbl\<close> is the format of \<open>double\<close>.
\<close>

record calibration =
  pressure_max_fp :: fp
  pressure_range_fp :: fp
  pressure_zero_ref_fp :: fp

definition AllSensors_DLV_fp :: "calibration \<Rightarrow> SensorType \<Rightarrow> fp \<Rightarrow> calibration" where
  "AllSensors_DLV_fp mem t p_max =
     (let s = mem\<lparr>pressure_max_fp := p_max\<rparr>
      in if t = GAGE \<or> t = ABSOLUTE then
           s\<lparr>pressure_zero_ref_fp := float_of_int 1638, pressure_range_fp := p_max\<rparr>
         else if t = DIFFERENTIAL then
           s\<lparr>pressure_zero_ref_fp := float_of_int 8192,
             pressure_range_fp := fmul binary32 p_max (float_of_int 2)\<rparr>
         else s)"

definition transferPressure_fp :: "fmt \<Rightarrow> calibration \<Rightarrow> unsigned_long \<Rightarrow> fp" where
  "transferPressure_fp dbl s raw_value =
     float_of_double
       (fmul dbl
          (fmul dbl (round_to dbl 1.25)
             (fdiv binary32 (fsub binary32 (float_of_ulong raw_value) (pressure_zero_ref_fp s))
                (float_of_int (uint FULL_SCALE_REF))))
          (pressure_range_fp s))"

text \<open>
  Zero-filled storage for the three members.
\<close>

definition zeroCal :: calibration where
  "zeroCal = \<lparr>pressure_max_fp = Finite 0, pressure_range_fp = Finite 0, pressure_zero_ref_fp = Finite 0\<rparr>"

section \<open>Auxiliary facts\<close>

subsection \<open>The bit masks of the decoder\<close>

lemma mask_0xC0: "(0b11000000 :: uint8_t) = push_bit 6 (mask 2)"
  by (simp add: mask_eq_exp_minus_1)

lemma mask_0xE0: "(0b11100000 :: uint8_t) = push_bit 5 (mask 3)"
  by (simp add: mask_eq_exp_minus_1)

lemma mask_0x3F: "(0b00111111 :: uint8_t) = mask 6"
  by (simp add: mask_eq_exp_minus_1)

lemma int_0x03: "(0b11 :: int) = mask 2"
  by (simp add: mask_eq_exp_minus_1)

lemma int_0xE0: "(0b11100000 :: int) = push_bit 5 (mask 3)"
  by (simp add: mask_eq_exp_minus_1)

lemma int_0x3F: "(0b00111111 :: int) = mask 6"
  by (simp add: mask_eq_exp_minus_1)

lemma status_bits:
  "uint (drop_bit 6 (b AND 0b11000000 :: uint8_t)) = drop_bit 6 (uint b) AND 0b11"
  unfolding mask_0xC0 int_0x03
  by (rule bit_eqI) (auto simp: bit_simps dest: bit_imp_le_length)

lemma pressure_bits:
  "uint (push_bit 8 (ucast (b0 AND 0b00111111 :: uint8_t) :: uint16_t) OR (ucast (b1 :: uint8_t) :: uint16_t))
     = push_bit 8 (uint b0 AND 0b00111111) OR uint b1"
  unfolding mask_0x3F int_0x3F
  by (rule bit_eqI) (auto simp: bit_simps dest: bit_imp_le_length)

lemma temperature_bits:
  "uint (push_bit 3 (ucast (b2 :: uint8_t) :: uint16_t) OR drop_bit 5 (ucast (b3 AND 0b11100000 :: uint8_t) :: uint16_t))
     = push_bit 3 (uint b2) OR drop_bit 5 (uint b3 AND 0b11100000)"
  unfolding mask_0xE0 int_0xE0
  by (rule bit_eqI) (auto simp: bit_simps dest: bit_imp_le_length)

lemma status_fits: "take_bit 2 (drop_bit 6 (b AND 0b11000000 :: uint8_t)) = drop_bit 6 (b AND 0b11000000)"
  unfolding mask_0xC0
  by (rule bit_eqI) (auto simp: bit_simps dest: bit_imp_le_length)

lemma pressure_fits:
  "take_bit 14 (push_bit 8 (ucast (b0 AND 0b00111111 :: uint8_t) :: uint16_t) OR (ucast (b1 :: uint8_t) :: uint16_t))
     = push_bit 8 (ucast (b0 AND 0b00111111 :: uint8_t) :: uint16_t) OR (ucast (b1 :: uint8_t) :: uint16_t)"
  unfolding mask_0x3F
  by (rule bit_eqI) (auto simp: bit_simps dest: bit_imp_le_length)

lemma temperature_fits:
  "take_bit 11 (push_bit 3 (ucast (b2 :: uint8_t) :: uint16_t) OR drop_bit 5 (ucast (b3 AND 0b11100000 :: uint8_t) :: uint16_t))
    = push_bit 3 (ucast (b2 :: uint8_t) :: uint16_t) OR drop_bit 5 (ucast (b3 AND 0b11100000 :: uint8_t) :: uint16_t)"
  unfolding mask_0xE0
  by (rule bit_eqI) (auto simp: bit_simps dest: bit_imp_le_length)

subsection \<open>The extraction functions\<close>

lemma extractStatus_bits: "extractStatus s = drop_bit 6 (uint (raw_data s 0)) AND 0b11"
  unfolding extractStatus_def by (rule status_bits)

lemma extractIntegerPressure_bits:
  "uint (extractIntegerPressure s) = push_bit 8 (uint (raw_data s 0) AND 0b00111111) OR uint (raw_data s 1)"
  unfolding extractIntegerPressure_def by (rule pressure_bits)

lemma extractIntegerTemperature_bits:
  "uint (extractIntegerTemperature s) = push_bit 3 (uint (raw_data s 2)) OR drop_bit 5 (uint (raw_data s 3) AND 0b11100000)"
  unfolding extractIntegerTemperature_def by (rule temperature_bits)

lemma extractStatus_range: "0 \<le> extractStatus s \<and> extractStatus s \<le> 3"
proof -
  let ?w = "drop_bit 6 (raw_data s 0 AND 0b11000000)"
  have "uint (take_bit 2 ?w) < 2 ^ 2"
    unfolding unsigned_take_bit_eq by (rule take_bit_int_less_exp)
  then have "uint ?w < 4"
    unfolding status_fits by simp
  then show ?thesis
    unfolding extractStatus_def by simp
qed

lemma extractIntegerPressure_range: "unat (extractIntegerPressure s) \<le> 16383"
proof -
  have "unat (take_bit 14 (extractIntegerPressure s)) < 2 ^ 14"
    unfolding unsigned_take_bit_eq by (rule take_bit_nat_less_exp)
  then have "unat (extractIntegerPressure s) < 2 ^ 14"
    unfolding extractIntegerPressure_def pressure_fits .
  then show ?thesis
    by simp
qed

lemma extractIntegerTemperature_range: "unat (extractIntegerTemperature s) \<le> 2047"
proof -
  have "unat (take_bit 11 (extractIntegerTemperature s)) < 2 ^ 11"
    unfolding unsigned_take_bit_eq by (rule take_bit_nat_less_exp)
  then have "unat (extractIntegerTemperature s) < 2 ^ 11"
    unfolding extractIntegerTemperature_def temperature_fits .
  then show ?thesis
    by simp
qed

text \<open>
  The extraction functions read \<open>raw_data\<close> and nothing else.
\<close>

lemma extract_update:
  "extractStatus (s\<lparr>bus := b\<rparr>) = extractStatus s"
  "extractStatus (s\<lparr>status := st\<rparr>) = extractStatus s"
  "extractStatus (s\<lparr>raw_p := p\<rparr>) = extractStatus s"
  "extractStatus (s\<lparr>raw_t := t\<rparr>) = extractStatus s"
  "extractStatus (s\<lparr>pressure := x\<rparr>) = extractStatus s"
  "extractStatus (s\<lparr>temperature := y\<rparr>) = extractStatus s"
  "extractIntegerPressure (s\<lparr>bus := b\<rparr>) = extractIntegerPressure s"
  "extractIntegerPressure (s\<lparr>status := st\<rparr>) = extractIntegerPressure s"
  "extractIntegerPressure (s\<lparr>raw_p := p\<rparr>) = extractIntegerPressure s"
  "extractIntegerPressure (s\<lparr>raw_t := t\<rparr>) = extractIntegerPressure s"
  "extractIntegerPressure (s\<lparr>pressure := x\<rparr>) = extractIntegerPressure s"
  "extractIntegerPressure (s\<lparr>temperature := y\<rparr>) = extractIntegerPressure s"
  "extractIntegerTemperature (s\<lparr>bus := b\<rparr>) = extractIntegerTemperature s"
  "extractIntegerTemperature (s\<lparr>status := st\<rparr>) = extractIntegerTemperature s"
  "extractIntegerTemperature (s\<lparr>raw_p := p\<rparr>) = extractIntegerTemperature s"
  "extractIntegerTemperature (s\<lparr>raw_t := t\<rparr>) = extractIntegerTemperature s"
  "extractIntegerTemperature (s\<lparr>pressure := x\<rparr>) = extractIntegerTemperature s"
  "extractIntegerTemperature (s\<lparr>temperature := y\<rparr>) = extractIntegerTemperature s"
  by (simp_all add: extractStatus_def extractIntegerPressure_def extractIntegerTemperature_def)

lemma extract_cong:
  "raw_data s 0 = raw_data s' 0 \<Longrightarrow> extractStatus s = extractStatus s'"
  "raw_data s 0 = raw_data s' 0 \<Longrightarrow> raw_data s 1 = raw_data s' 1 \<Longrightarrow> extractIntegerPressure s = extractIntegerPressure s'"
  "raw_data s 2 = raw_data s' 2 \<Longrightarrow> raw_data s 3 = raw_data s' 3 \<Longrightarrow> extractIntegerTemperature s = extractIntegerTemperature s'"
  by (simp_all add: extractStatus_def extractIntegerPressure_def extractIntegerTemperature_def)

subsection \<open>Transfer, conversion and construction\<close>

lemma FULL_SCALE_REF_value: "unat FULL_SCALE_REF = 16384"
  by (simp add: FULL_SCALE_REF_def)

lemma transfer_cong:
  "pressure_zero_ref s = pressure_zero_ref s' \<Longrightarrow> pressure_range s = pressure_range s' \<Longrightarrow>
   transferPressure s = transferPressure s'"
  "transferTemperature s = transferTemperature s'"
  by (simp_all add: fun_eq_iff transferPressure_def transferTemperature_def)

lemma convert_transfer_forget:
  "convertPressure (s\<lparr>status := st, pressure := p, temperature := t\<rparr>) = convertPressure s"
  "convertTemperature (s\<lparr>status := st, pressure := p, temperature := t\<rparr>) = convertTemperature s"
  "transferPressure (s\<lparr>status := st, pressure := p, temperature := t\<rparr>) = transferPressure s"
  "transferTemperature (s\<lparr>status := st, pressure := p, temperature := t\<rparr>) = transferTemperature s"
  by (simp_all add: fun_eq_iff convertPressure_def convertTemperature_def transferPressure_def
      transferTemperature_def)

lemma convert_identity:
  "pressure_unit s = PSI \<Longrightarrow> convertPressure s psi = psi"
  "temperature_unit s = CELCIUS \<Longrightarrow> convertTemperature s c = c"
  by (simp_all add: convertPressure_def convertTemperature_def
      PSI_def IN_H2O_def PASCAL_def CELCIUS_def FAHRENHEIT_def KELVIN_def)

lemma AllSensors_DLV_units:
  "pressure_unit (AllSensors_DLV mem b t R) = PSI"
  "temperature_unit (AllSensors_DLV mem b t R) = CELCIUS"
  by (simp_all add: AllSensors_DLV_def Let_def)

lemma AllSensors_DLV_bus: "bus (AllSensors_DLV mem b t R) = b"
  by (simp add: AllSensors_DLV_def Let_def)

subsection \<open>The read loop\<close>

text \<open>
  The loop runs four times from index 0; its result in closed form, and what it leaves alone.
\<close>

lemma readLoop_done: "\<not> i < 4 \<Longrightarrow> readLoop w i s = s"
  by (subst readLoop.simps) (simp add: READ_LENGTH_def)

lemma readLoop_step:
  "i < 4 \<Longrightarrow> readLoop w i s =
     readLoop w (Suc i)
       (s\<lparr>bus := snd (read w (bus s)),
          raw_data := (raw_data s)(i := word_of_int (fst (read w (bus s))))\<rparr>)"
  by (subst readLoop.simps) (simp add: READ_LENGTH_def split: prod.split)

lemma readLoop_0:
  "readLoop w 0 s =
     (let b0 = bus s;
          b1 = snd (read w b0);
          b2 = snd (read w b1);
          b3 = snd (read w b2);
          b4 = snd (read w b3)
      in s\<lparr>bus := b4,
           raw_data := (raw_data s)
             (0 := word_of_int (fst (read w b0)), 1 := word_of_int (fst (read w b1)),
              2 := word_of_int (fst (read w b2)), 3 := word_of_int (fst (read w b3)))\<rparr>)"
  by (simp add: readLoop_step readLoop_done Let_def numeral_eq_Suc)

lemma readLoop_fields:
  "type (readLoop w i s) = type s"
  "raw_p (readLoop w i s) = raw_p s"
  "raw_t (readLoop w i s) = raw_t s"
  "pressure_max (readLoop w i s) = pressure_max s"
  "pressure_range (readLoop w i s) = pressure_range s"
  "pressure_zero_ref (readLoop w i s) = pressure_zero_ref s"
  "pressure_unit (readLoop w i s) = pressure_unit s"
  "temperature_unit (readLoop w i s) = temperature_unit s"
  "status (readLoop w i s) = status s"
  "pressure (readLoop w i s) = pressure s"
  "temperature (readLoop w i s) = temperature s"
  by (induction w i s rule: readLoop.induct; subst readLoop.simps; simp split: prod.split)+

lemma readLoop_0_forgets:
  "readLoop w 0 (s\<lparr>status := st, pressure := p, temperature := t, bus := b\<rparr>)
     = (readLoop w 0 (s\<lparr>bus := b\<rparr>))\<lparr>status := st, pressure := p, temperature := t\<rparr>"
  by (simp add: readLoop_0 Let_def)

subsection \<open>Acquisition\<close>

text \<open>
  \<open>readData\<close> in terms of the object as the loop leaves it.
\<close>

lemma readData_post:
  "readData w s =
     (let l = readLoop w 0 (s\<lparr>bus := snd (requestFrom w I2C_ADDRESS READ_LENGTH (bus s))\<rparr>)
      in (extractStatus l = ERROR,
          l\<lparr>bus := snd (endTransmission w (bus l)),
            status := extractStatus l,
            raw_p := extractIntegerPressure l,
            raw_t := extractIntegerTemperature l,
            pressure := convertPressure s (transferPressure s (ucast (extractIntegerPressure l))),
            temperature := convertTemperature s (transferTemperature s (ucast (extractIntegerTemperature l)))\<rparr>))"
  by (simp add: readData_def Let_def readLoop_fields extract_update
      convertPressure_def transferPressure_def convertTemperature_def transferTemperature_def)

lemma readData_result: "fst (readData w s) = (extractStatus (snd (readData w s)) = ERROR)"
  by (simp add: readData_post Let_def extract_update)

lemma readData_reading:
  "status (snd (readData w s)) = extractStatus (snd (readData w s))"
  "raw_p (snd (readData w s)) = extractIntegerPressure (snd (readData w s))"
  "raw_t (snd (readData w s)) = extractIntegerTemperature (snd (readData w s))"
  "pressure (snd (readData w s))
     = convertPressure s (transferPressure s (ucast (extractIntegerPressure (snd (readData w s)))))"
  "temperature (snd (readData w s))
     = convertTemperature s (transferTemperature s (ucast (extractIntegerTemperature (snd (readData w s)))))"
  by (simp_all add: readData_post Let_def extract_update)

lemma readData_config:
  "type (snd (readData w s)) = type s"
  "pressure_max (snd (readData w s)) = pressure_max s"
  "pressure_range (snd (readData w s)) = pressure_range s"
  "pressure_zero_ref (snd (readData w s)) = pressure_zero_ref s"
  "pressure_unit (snd (readData w s)) = pressure_unit s"
  "temperature_unit (snd (readData w s)) = temperature_unit s"
  by (simp_all add: readData_post Let_def readLoop_fields)

lemma readData_iterate_config:
  "pressure_unit (((\<lambda>s. snd (readData w s)) ^^ n) s) = pressure_unit s"
  "temperature_unit (((\<lambda>s. snd (readData w s)) ^^ n) s) = temperature_unit s"
  "pressure_zero_ref (((\<lambda>s. snd (readData w s)) ^^ n) s) = pressure_zero_ref s"
  "pressure_range (((\<lambda>s. snd (readData w s)) ^^ n) s) = pressure_range s"
  by (induction n) (simp_all add: readData_config)

lemma readData_forgets:
  "readData w (s\<lparr>status := st, pressure := p, temperature := t\<rparr>) = readData w s"
  by (simp add: readData_post Let_def readLoop_0_forgets extract_update convert_transfer_forget)

text \<open>
  On the queue transport the frame is the first four values of the queue.
\<close>

lemma readData_queueWire:
  "bus s = v0 # v1 # v2 # v3 # rest \<Longrightarrow>
   readData queueWire s =
     (let l = s\<lparr>bus := rest,
                raw_data := (raw_data s)(0 := word_of_int v0, 1 := word_of_int v1,
                                         2 := word_of_int v2, 3 := word_of_int v3)\<rparr>
      in (extractStatus l = ERROR,
          l\<lparr>status := extractStatus l,
            raw_p := extractIntegerPressure l,
            raw_t := extractIntegerTemperature l,
            pressure := convertPressure s (transferPressure s (ucast (extractIntegerPressure l))),
            temperature := convertTemperature s (transferTemperature s (ucast (extractIntegerTemperature l)))\<rparr>))"
  by (simp add: readData_post Let_def readLoop_0 queueWire_def extract_update)

lemma readData_queueWire_raw_data:
  fixes byte0 byte1 byte2 byte3 :: uint8_t
  shows "raw_data (snd (readData queueWire (s\<lparr>bus := [uint byte0, uint byte1, uint byte2, uint byte3]\<rparr>)))
           = (raw_data s)(0 := byte0, 1 := byte1, 2 := byte2, 3 := byte3)"
  by (simp add: readData_post Let_def readLoop_0 queueWire_def)

lemma readData_queueWire_fields:
  fixes byte0 byte1 byte2 byte3 :: uint8_t
  shows "extractStatus (snd (readData queueWire (s\<lparr>bus := [uint byte0, uint byte1, uint byte2, uint byte3]\<rparr>)))
           = extractStatus (s\<lparr>raw_data := nth [byte0, byte1, byte2, byte3]\<rparr>)"
    and "extractIntegerPressure (snd (readData queueWire (s\<lparr>bus := [uint byte0, uint byte1, uint byte2, uint byte3]\<rparr>)))
           = extractIntegerPressure (s\<lparr>raw_data := nth [byte0, byte1, byte2, byte3]\<rparr>)"
    and "extractIntegerTemperature (snd (readData queueWire (s\<lparr>bus := [uint byte0, uint byte1, uint byte2, uint byte3]\<rparr>)))
           = extractIntegerTemperature (s\<lparr>raw_data := nth [byte0, byte1, byte2, byte3]\<rparr>)"
  by (rule extract_cong; simp add: readData_queueWire_raw_data)+

subsection \<open>Rounding\<close>

text \<open>
  The exponent search returns the binade of its argument.
\<close>

lemma expo_from_lower: "e \<le> expo_from n e a"
proof (induction n arbitrary: e)
  case 0
  then show ?case by simp
next
  case (Suc n)
  from Suc [of "e + 1"] show ?case by simp
qed

lemma expo_from_upper: "expo_from n e a \<le> e + int n"
proof (induction n arbitrary: e)
  case 0
  then show ?case by simp
next
  case (Suc n)
  from Suc [of "e + 1"] show ?case by simp
qed

lemma expo_from_ge: "e < expo_from n e a \<Longrightarrow> 2 powi (expo_from n e a) \<le> a"
proof (induction n arbitrary: e)
  case 0
  then show ?case by simp
next
  case (Suc n)
  show ?case
  proof (cases "2 powi (e + 1) \<le> a")
    case True
    show ?thesis
    proof (cases "e + 1 < expo_from n (e + 1) a")
      case True
      with Suc.IH [of "e + 1"] \<open>2 powi (e + 1) \<le> a\<close> show ?thesis by simp
    next
      case False
      with expo_from_lower [of "e + 1" n a] have "expo_from n (e + 1) a = e + 1" by simp
      with True show ?thesis by simp
    qed
  next
    case False
    with Suc.prems show ?thesis by simp
  qed
qed

lemma expo_from_lt: "expo_from n e a < e + int n \<Longrightarrow> a < 2 powi (expo_from n e a + 1)"
proof (induction n arbitrary: e)
  case 0
  then show ?case by simp
next
  case (Suc n)
  show ?case
  proof (cases "2 powi (e + 1) \<le> a")
    case True
    with Suc.prems Suc.IH [of "e + 1"] show ?thesis by simp
  next
    case False
    then show ?thesis by simp
  qed
qed

lemma expo_range: "valid f \<Longrightarrow> emin f \<le> expo f a \<and> expo f a \<le> emax f"
  using expo_from_lower [of "emin f" "nat (emax f - emin f)" a]
    expo_from_upper [of "nat (emax f - emin f)" "emin f" a]
  by (simp add: expo_def valid_def)

lemma expo_ge: "emin f < expo f a \<Longrightarrow> 2 powi (expo f a) \<le> a"
  unfolding expo_def by (rule expo_from_ge)

lemma expo_lt: "valid f \<Longrightarrow> expo f a < emax f \<Longrightarrow> a < 2 powi (expo f a + 1)"
  unfolding expo_def using expo_from_lt [of "nat (emax f - emin f)" "emin f" a]
  by (simp add: valid_def)

lemma pow2_less_iff: "(2::real) powi m < 2 powi n \<longleftrightarrow> m < n"
proof
  assume l: "(2::real) powi m < 2 powi n"
  show "m < n"
  proof (rule ccontr)
    assume "\<not> m < n"
    then have "n \<le> m" by simp
    then have "(2::real) powi n \<le> 2 powi m" by (rule power_int_increasing) simp
    with l show False by simp
  qed
next
  assume "m < n"
  then show "(2::real) powi m < 2 powi n" by (rule power_int_strict_increasing) simp
qed

lemma pow2_le_iff: "(2::real) powi m \<le> 2 powi n \<longleftrightarrow> m \<le> n"
  using pow2_less_iff [of n m] by (simp add: not_less [symmetric])

lemma expo_eq:
  assumes v: "valid f" and e: "emin f \<le> e" "e \<le> emax f" and a: "2 powi e \<le> a" "a < 2 powi (e + 1)"
  shows "expo f a = e"
proof (rule antisym)
  show "expo f a \<le> e"
  proof (rule ccontr)
    assume "\<not> expo f a \<le> e"
    then have l: "e < expo f a" by simp
    with e have "emin f < expo f a" by simp
    then have "2 powi (expo f a) \<le> a" by (rule expo_ge)
    with a(2) have "(2::real) powi (expo f a) < 2 powi (e + 1)" by simp
    then show False using l by (simp add: pow2_less_iff)
  qed
next
  show "e \<le> expo f a"
  proof (rule ccontr)
    assume "\<not> e \<le> expo f a"
    then have l: "expo f a < e" by simp
    with e have "expo f a < emax f" by simp
    then have "a < 2 powi (expo f a + 1)" by (rule expo_lt [OF v])
    with a(1) have "(2::real) powi e < 2 powi (expo f a + 1)" by simp
    then show False using l by (simp add: pow2_less_iff)
  qed
qed

lemma round_half_even_of_int: "round_half_even (of_int n) = n"
  by (simp add: round_half_even_def)

lemma round_half_even_ge: "of_int n \<le> q \<Longrightarrow> n \<le> round_half_even q"
proof -
  assume "of_int n \<le> q"
  then have "n \<le> \<lfloor>q\<rfloor>" by (simp add: le_floor_iff)
  then show ?thesis by (simp add: round_half_even_def Let_def)
qed

lemma round_half_even_le: "q \<le> of_int n \<Longrightarrow> round_half_even q \<le> n"
proof -
  assume q: "q \<le> of_int n"
  show ?thesis
  proof (cases "q = of_int n")
    case True
    then show ?thesis by (simp add: round_half_even_of_int)
  next
    case False
    with q have "q < of_int n" by simp
    then have "\<lfloor>q\<rfloor> < n" by (simp add: floor_less_iff)
    then show ?thesis by (simp add: round_half_even_def Let_def)
  qed
qed

lemma pow2_split: "q \<le> k \<Longrightarrow> (2::real) powi k = of_int (2 ^ nat (k - q)) * 2 powi q"
proof -
  assume l: "q \<le> k"
  have "(2::real) powi k = 2 powi ((k - q) + q)" by simp
  also have "\<dots> = 2 powi (k - q) * 2 powi q" by (rule power_int_add) simp
  also have "(2::real) powi (k - q) = 2 ^ nat (k - q)" using l by (simp add: power_int_nonneg_exp)
  finally show ?thesis by simp
qed

text \<open>
  A number \<open>m * 2 ^ k\<close> with \<open>m\<close> within the precision and \<open>k\<close> within the exponents is
  rounded to itself; a number of magnitude \<open>2 ^ (emax + 1)\<close> or more is rounded to an
  infinity; every finite result of rounding is such a number \<open>m * 2 ^ k\<close>, so rounding
  is idempotent.
\<close>

lemma round_to_exact:
  assumes v: "valid f"
    and m: "\<bar>m\<bar> < 2 ^ prec f"
    and k: "emin f - int (prec f) + 1 \<le> k"
    and b: "\<bar>of_int m * 2 powi k\<bar> < (2::real) powi (emax f + 1)"
  shows "round_to f (of_int m * 2 powi k) = Finite (of_int m * 2 powi k)"
proof -
  let ?x = "of_int m * 2 powi k :: real"
  let ?e = "expo f \<bar>?x\<bar>"
  let ?q = "?e - int (prec f) + 1"
  have q: "?q \<le> k"
  proof (cases "emin f < ?e")
    case True
    then have "2 powi ?e \<le> \<bar>?x\<bar>" by (rule expo_ge)
    also have "\<bar>?x\<bar> = of_int \<bar>m\<bar> * 2 powi k" by (simp add: abs_mult)
    also have "\<dots> < of_int (2 ^ prec f) * 2 powi k"
      using m by (intro mult_strict_right_mono) (simp_all only: of_int_less_iff zero_less_power_int zero_less_numeral)
    also have "\<dots> = 2 powi (int (prec f) + k)" by (simp add: power_int_add)
    finally have "?e < int (prec f) + k" by (simp only: pow2_less_iff)
    then show ?thesis by simp
  next
    case False
    with expo_range [OF v, of "\<bar>?x\<bar>"] have "?e = emin f" by simp
    with k show ?thesis by simp
  qed
  have d: "?x / 2 powi ?q = of_int (m * 2 ^ nat (k - ?q))"
    by (subst pow2_split [OF q]) simp
  have "of_int (round_half_even (?x / 2 powi ?q)) * 2 powi ?q = ?x"
    unfolding d round_half_even_of_int by (subst (2) pow2_split [OF q]) simp
  then show ?thesis
    using b by (simp add: round_to_def Let_def)
qed

lemma round_to_zero: "valid f \<Longrightarrow> round_to f 0 = Finite 0"
  using round_to_exact [of f 0 "emin f - int (prec f) + 1"] by simp

lemma round_to_overflow:
  assumes v: "valid f" and x: "2 powi (emax f + 1) \<le> \<bar>x\<bar>"
  shows "round_to f x = Infinity (x < 0)"
proof -
  let ?e = "expo f \<bar>x\<bar>"
  let ?u = "(2::real) powi (?e - int (prec f) + 1)"
  let ?n = "round_half_even (x / ?u)"
  have e: "?e = emax f"
  proof (rule ccontr)
    assume "?e \<noteq> emax f"
    with expo_range [OF v, of "\<bar>x\<bar>"] have l: "?e < emax f" by simp
    then have "\<bar>x\<bar> < 2 powi (?e + 1)" by (rule expo_lt [OF v])
    also have "\<dots> \<le> 2 powi (emax f + 1)" using l by (simp add: pow2_le_iff)
    finally show False using x by simp
  qed
  have u: "0 < ?u" by simp
  have s: "(2::real) powi (emax f + 1) = of_int (2 ^ prec f) * ?u"
    unfolding e using pow2_split [of "emax f - int (prec f) + 1" "emax f + 1"] by simp
  have "2 ^ prec f \<le> \<bar>?n\<bar>"
  proof (cases "x < 0")
    case True
    with x have "x \<le> - (of_int (2 ^ prec f) * ?u)" unfolding s by simp
    then have "x / ?u \<le> of_int (- (2 ^ prec f))"
      using u by (simp add: pos_divide_le_eq)
    then have "?n \<le> - (2 ^ prec f)" by (rule round_half_even_le)
    then show ?thesis by simp
  next
    case False
    with x have "of_int (2 ^ prec f) * ?u \<le> x" unfolding s by simp
    then have "of_int (2 ^ prec f) \<le> x / ?u"
      using u by (simp add: pos_le_divide_eq)
    then have "2 ^ prec f \<le> ?n" by (rule round_half_even_ge)
    then show ?thesis by simp
  qed
  then have "of_int (2 ^ prec f) \<le> (of_int \<bar>?n\<bar> :: real)"
    by (simp only: of_int_le_iff)
  then have "of_int (2 ^ prec f) * ?u \<le> of_int \<bar>?n\<bar> * ?u"
    using u by (intro mult_right_mono) simp_all
  then have "2 powi (emax f + 1) \<le> \<bar>of_int ?n * ?u\<bar>"
    unfolding s by (simp add: abs_mult)
  then show ?thesis
    by (simp add: round_to_def Let_def)
qed

lemma round_to_Finite_form:
  assumes v: "valid f" and r: "round_to f x = Finite y"
  shows "\<exists>m k. y = of_int m * 2 powi k \<and> \<bar>m\<bar> < 2 ^ prec f
           \<and> emin f - int (prec f) + 1 \<le> k \<and> \<bar>y\<bar> < 2 powi (emax f + 1)"
proof -
  let ?p = "prec f"
  let ?e = "expo f \<bar>x\<bar>"
  let ?q = "?e - int ?p + 1"
  let ?u = "(2::real) powi ?q"
  let ?n = "round_half_even (x / ?u)"
  have u: "0 < ?u" by simp
  from r have y: "y = of_int ?n * ?u" and b: "\<bar>y\<bar> < 2 powi (emax f + 1)"
    by (simp_all add: round_to_def Let_def split: if_splits)
  from expo_range [OF v, of "\<bar>x\<bar>"] have q: "emin f - int ?p + 1 \<le> ?q" and e: "?e \<le> emax f"
    by simp_all
  show ?thesis
  proof (cases "\<bar>?n\<bar> < 2 ^ ?p")
    case True
    with y q b show ?thesis by blast
  next
    case False
    then have big: "2 ^ ?p \<le> \<bar>?n\<bar>" by simp
    have lt: "?e < emax f"
    proof (rule ccontr)
      assume "\<not> ?e < emax f"
      with e have em: "?e = emax f" by simp
      have s: "(2::real) powi (emax f + 1) = of_int (2 ^ ?p) * ?u"
        unfolding em using pow2_split [of "emax f - int ?p + 1" "emax f + 1"] by simp
      from big have "of_int (2 ^ ?p) \<le> (of_int \<bar>?n\<bar> :: real)"
        by (simp only: of_int_le_iff)
      then have "of_int (2 ^ ?p) * ?u \<le> of_int \<bar>?n\<bar> * ?u"
        using u by (intro mult_right_mono) simp_all
      then have "2 powi (emax f + 1) \<le> \<bar>y\<bar>"
        unfolding s y by (simp add: abs_mult)
      with b show False by simp
    qed
    then have "\<bar>x\<bar> < 2 powi (?e + 1)" by (rule expo_lt [OF v])
    also have "(2::real) powi (?e + 1) = of_int (2 ^ ?p) * ?u"
      using pow2_split [of ?q "?e + 1"] by simp
    finally have x: "\<bar>x\<bar> < of_int (2 ^ ?p) * ?u" .
    then have hi: "x / ?u \<le> of_int (2 ^ ?p)" and lo: "of_int (- (2 ^ ?p)) \<le> x / ?u"
      using u by (simp_all add: pos_divide_le_eq pos_le_divide_eq)
    from hi have "?n \<le> 2 ^ ?p" by (rule round_half_even_le)
    moreover from lo have "- (2 ^ ?p) \<le> ?n" by (rule round_half_even_ge)
    ultimately have n: "?n = 2 ^ ?p \<or> ?n = - (2 ^ ?p)" using big by auto
    from v have pw: "(2::int) ^ ?p = 2 * 2 ^ (?p - 1)"
      by (cases "prec f") (simp_all add: valid_def)
    have u2: "(2::real) powi (?q + 1) = 2 * ?u"
      by (simp add: power_int_add)
    let ?m = "if ?n = 2 ^ ?p then 2 ^ (?p - 1) else - (2 ^ (?p - 1)) :: int"
    have "of_int ?n * ?u = of_int ?m * (2 * ?u)"
    proof (cases "?n = 2 ^ ?p")
      case True
      have "of_int ?n * ?u = of_int (2 * 2 ^ (?p - 1)) * ?u"
        by (simp only: True pw)
      then show ?thesis using True by simp
    next
      case False
      with n have m: "?n = - (2 ^ ?p)" by simp
      have "of_int ?n * ?u = of_int (- (2 * 2 ^ (?p - 1))) * ?u"
        by (simp only: m pw)
      then show ?thesis using False by simp
    qed
    then have "y = of_int ?m * 2 powi (?q + 1)"
      unfolding y u2 .
    moreover have "\<bar>?m\<bar> < 2 ^ ?p"
      unfolding pw by simp
    moreover have "emin f - int ?p + 1 \<le> ?q + 1"
      using q by simp
    ultimately show ?thesis
      using b by blast
  qed
qed

lemma round_to_idem: "valid f \<Longrightarrow> round_to f x = Finite y \<Longrightarrow> round_to f y = Finite y"
  using round_to_Finite_form [of f x y] round_to_exact [of f] by blast

lemma valid_formats: "valid binary32" "valid binary64"
  by (simp_all add: valid_def binary32_def binary64_def)

lemma round_to_int:
  "valid f \<Longrightarrow> \<bar>i\<bar> < 2 ^ prec f \<Longrightarrow> emin f - int (prec f) + 1 \<le> 0 \<Longrightarrow> int (prec f) \<le> emax f + 1 \<Longrightarrow>
   round_to f (of_int i) = Finite (of_int i)"
proof -
  assume v: "valid f" and i: "\<bar>i\<bar> < 2 ^ prec f" and k: "emin f - int (prec f) + 1 \<le> 0"
    and p: "int (prec f) \<le> emax f + 1"
  have "(of_int \<bar>i\<bar> :: real) < of_int (2 ^ prec f)" using i by (simp only: of_int_less_iff)
  also have "\<dots> = 2 powi (int (prec f))" by simp
  also have "\<dots> \<le> 2 powi (emax f + 1)" using p by (simp only: pow2_le_iff)
  finally have "\<bar>of_int i * 2 powi 0\<bar> < (2::real) powi (emax f + 1)" by simp
  with round_to_exact [OF v i k] show ?thesis by simp
qed

lemma binary32_int: "\<bar>i\<bar> < 16777216 \<Longrightarrow> round_to binary32 (of_int i) = Finite (of_int i)"
  by (rule round_to_int) (simp_all add: valid_def binary32_def)

lemma is_binary32_int: "\<bar>i\<bar> < 16777216 \<Longrightarrow> is_binary32 (of_int i)"
  unfolding is_binary32_def by (rule binary32_int)

lemma float_of_int_small: "\<bar>i\<bar> < 16777216 \<Longrightarrow> float_of_int i = Finite (of_int i)"
  unfolding float_of_int_def by (rule binary32_int)

lemma float_of_double_round: "float_of_double (round_to binary32 z) = round_to binary32 z"
proof (cases "round_to binary32 z")
  case (Finite w)
  then have "round_to binary32 w = Finite w"
    by (rule round_to_idem [OF valid_formats(1)])
  with Finite show ?thesis by simp
qed simp_all

subsection \<open>The steps of the pressure transfer function\<close>

text \<open>
  For a code and a zero reference in 0..16383 the conversion, the subtraction, the
  division by 16384 and the multiplication by 1.25 are exact. The product with the span
  is rounded once: exact in binary64 and rounded by the conversion to \<open>float\<close>, or rounded
  in binary32 and left alone by the conversion.
\<close>

lemma binary32_scaled:
  "\<bar>i\<bar> < 16777216 \<Longrightarrow> round_to binary32 (of_int i / 16384) = Finite (of_int i / 16384)"
proof -
  assume i: "\<bar>i\<bar> < 16777216"
  have e: "(of_int i / 16384 :: real) = of_int i * 2 powi (- 14)"
    by (simp add: power_int_minus_divide)
  have "(of_int \<bar>i\<bar> :: real) < of_int 16777216"
    using i by (simp only: of_int_less_iff)
  then have "\<bar>of_int i :: real\<bar> < 16777216"
    by simp
  then have "\<bar>of_int i * 2 powi (- 14) :: real\<bar> < 2 powi (emax binary32 + 1)"
    by (simp add: binary32_def abs_mult power_int_minus_divide)
  with round_to_exact [of binary32 i "- 14"] i show ?thesis
    unfolding e by (simp add: valid_def binary32_def)
qed

lemma double_five_quarters:
  "dbl = binary32 \<or> dbl = binary64 \<Longrightarrow> round_to dbl 1.25 = Finite 1.25"
proof -
  assume d: "dbl = binary32 \<or> dbl = binary64"
  have e: "(1.25 :: real) = of_int 5 * 2 powi (- 2)"
    by (simp add: power_int_minus_divide)
  from d have "round_to dbl (of_int 5 * 2 powi (- 2)) = Finite (of_int 5 * 2 powi (- 2))"
    by (intro round_to_exact) (auto simp: valid_def binary32_def binary64_def power_int_minus_divide)
  then show ?thesis
    unfolding e .
qed

lemma double_scaled:
  assumes d: "dbl = binary32 \<or> dbl = binary64" and i: "\<bar>i\<bar> < 16384"
  shows "round_to dbl (1.25 * (of_int i / 16384)) = Finite (1.25 * (of_int i / 16384))"
proof -
  have e: "(1.25 * (of_int i / 16384) :: real) = of_int (5 * i) * 2 powi (- 16)"
    by (simp add: power_int_minus_divide)
  have "(of_int \<bar>i\<bar> :: real) < of_int 16384"
    using i by (simp only: of_int_less_iff)
  then have "\<bar>of_int i :: real\<bar> < 16384"
    by simp
  then have b: "\<bar>of_int (5 * i) * 2 powi (- 16) :: real\<bar> < 2"
    by (simp add: abs_mult power_int_minus_divide)
  have "(2 :: real) \<le> 2 powi (emax dbl + 1)"
    using d by (auto simp: binary32_def binary64_def)
  with b have "\<bar>of_int (5 * i) * 2 powi (- 16) :: real\<bar> < 2 powi (emax dbl + 1)"
    by simp
  moreover have "\<bar>5 * i\<bar> < 2 ^ prec dbl"
  proof -
    have "\<bar>5 * i\<bar> < 2 ^ 24" using i by simp
    also have "(2::int) ^ 24 \<le> 2 ^ prec dbl"
      using d by (intro power_increasing) (auto simp: binary32_def binary64_def)
    finally show ?thesis .
  qed
  moreover have "valid dbl" "emin dbl - int (prec dbl) + 1 \<le> - 16"
    using d by (auto simp: valid_def binary32_def binary64_def)
  ultimately show ?thesis
    unfolding e by (intro round_to_exact)
qed

lemma binary64_product:
  assumes i: "\<bar>i\<bar> < 16384" and r: "is_binary32 r"
  shows "round_to binary64 (1.25 * (of_int i / 16384) * r) = Finite (1.25 * (of_int i / 16384) * r)"
proof -
  from r have "round_to binary32 r = Finite r"
    by (simp add: is_binary32_def)
  from round_to_Finite_form [OF valid_formats(1) this]
  obtain m k where m: "r = of_int m * 2 powi k" "\<bar>m\<bar> < 2 ^ 24" "- 149 \<le> k"
    and b: "\<bar>r\<bar> < 2 powi 128"
    by (auto simp: binary32_def)
  have e: "1.25 * (of_int i / 16384) * r = of_int (5 * i * m) * 2 powi (k - 16)"
    unfolding m(1) by (simp add: power_int_diff)
  have "\<bar>5 * i\<bar> * \<bar>m\<bar> < 2 ^ 17 * 2 ^ 24"
    using i m(2) by (intro mult_strict_mono) simp_all
  then have n: "\<bar>5 * i * m\<bar> < 2 ^ prec binary64"
    by (simp add: abs_mult binary64_def)
  have "(of_int \<bar>i\<bar> :: real) < of_int 16384"
    using i by (simp only: of_int_less_iff)
  then have "\<bar>1.25 * (of_int i / 16384) :: real\<bar> < 2"
    by (simp add: abs_mult)
  then have "\<bar>1.25 * (of_int i / 16384)\<bar> * \<bar>r\<bar> < 2 * 2 powi 128"
    using b by (intro mult_strict_mono) simp_all
  then have "\<bar>of_int (5 * i * m) * 2 powi (k - 16) :: real\<bar> < 2 powi (emax binary64 + 1)"
    unfolding e [symmetric] by (simp add: abs_mult binary64_def)
  moreover have "emin binary64 - int (prec binary64) + 1 \<le> k - 16"
    using m(3) by (simp add: binary64_def)
  ultimately show ?thesis
    unfolding e using n by (intro round_to_exact valid_formats)
qed

lemma final_product:
  assumes d: "dbl = binary32 \<or> dbl = binary64" and i: "\<bar>i\<bar> < 16384" and r: "is_binary32 r"
  shows "float_of_double (fmul dbl (Finite (1.25 * (of_int i / 16384))) (Finite r))
           = round_to binary32 (1.25 * (of_int i / 16384) * r)"
  using d
proof
  assume "dbl = binary32"
  then show ?thesis by (simp only: fmul.simps float_of_double_round)
next
  assume "dbl = binary64"
  then show ?thesis by (simp only: fmul.simps binary64_product [OF i r] float_of_double.simps)
qed

lemma transferPressure_fp_core:
  assumes d: "dbl = binary32 \<or> dbl = binary64"
    and c: "pressureCode \<le> 16383"
    and z: "0 \<le> z" "z \<le> 16383"
    and s: "pressure_zero_ref_fp s = Finite (of_int z)" "pressure_range_fp s = Finite r"
    and r: "is_binary32 r"
  shows "transferPressure_fp dbl s (of_nat pressureCode)
           = round_to binary32 (1.25 * ((real pressureCode - of_int z) / 16384) * r)"
proof -
  let ?i = "int pressureCode - z"
  have i: "\<bar>?i\<bar> < 16384" "\<bar>?i\<bar> < 16777216" "\<bar>int pressureCode\<bar> < 16777216"
    using c z by simp_all
  have u: "unat (of_nat pressureCode :: unsigned_long) = pressureCode"
    using c by (simp add: unat_of_nat)
  have "float_of_ulong (of_nat pressureCode) = Finite (of_int (int pressureCode))"
    unfolding float_of_ulong_def u using binary32_int [OF i(3)] by simp
  then have "fsub binary32 (float_of_ulong (of_nat pressureCode)) (pressure_zero_ref_fp s)
               = Finite (of_int ?i)"
    using binary32_int [OF i(2)] by (simp add: s)
  moreover have "float_of_int (uint FULL_SCALE_REF) = Finite 16384"
    using binary32_int [of 16384] by (simp add: float_of_int_def FULL_SCALE_REF_def)
  ultimately have "fdiv binary32 (fsub binary32 (float_of_ulong (of_nat pressureCode)) (pressure_zero_ref_fp s))
                     (float_of_int (uint FULL_SCALE_REF)) = Finite (of_int ?i / 16384)"
    using binary32_scaled [OF i(2)] by simp
  then have "transferPressure_fp dbl s (of_nat pressureCode)
               = float_of_double (fmul dbl (Finite (1.25 * (of_int ?i / 16384))) (Finite r))"
    unfolding transferPressure_fp_def s(2) double_five_quarters [OF d]
    using double_scaled [OF d i(1)] by (simp only: fmul.simps)
  also have "\<dots> = round_to binary32 (1.25 * (of_int ?i / 16384) * r)"
    by (rule final_product [OF d i(1) r])
  finally show ?thesis
    by simp
qed

lemma AllSensors_DLV_fp_fields:
  "pressure_zero_ref_fp (AllSensors_DLV_fp mem GAGE p) = Finite 1638"
  "pressure_range_fp (AllSensors_DLV_fp mem GAGE p) = p"
  "pressure_zero_ref_fp (AllSensors_DLV_fp mem ABSOLUTE p) = Finite 1638"
  "pressure_range_fp (AllSensors_DLV_fp mem ABSOLUTE p) = p"
  "pressure_zero_ref_fp (AllSensors_DLV_fp mem DIFFERENTIAL p) = Finite 8192"
  "pressure_range_fp (AllSensors_DLV_fp mem DIFFERENTIAL (Finite R)) = round_to binary32 (R * 2)"
  using float_of_int_small [of 1638] float_of_int_small [of 8192] float_of_int_small [of 2]
  by (simp_all add: AllSensors_DLV_fp_def GAGE_def ABSOLUTE_def DIFFERENTIAL_def)

lemma span_finite:
  assumes r: "is_binary32 R" and b: "\<bar>R\<bar> < 2 ^ 127"
  shows "round_to binary32 (R * 2) = Finite (2 * R)"
proof -
  from r have "round_to binary32 R = Finite R"
    by (simp add: is_binary32_def)
  from round_to_Finite_form [OF valid_formats(1) this]
  obtain m k where m: "R = of_int m * 2 powi k" "\<bar>m\<bar> < 2 ^ prec binary32"
    "emin binary32 - int (prec binary32) + 1 \<le> k"
    by auto
  have e: "R * 2 = of_int m * 2 powi (k + 1)" "2 * R = of_int m * 2 powi (k + 1)"
    unfolding m(1) by (simp_all add: power_int_add)
  have "\<bar>of_int m * 2 powi (k + 1) :: real\<bar> < 2 powi (emax binary32 + 1)"
    using b unfolding e(1) [symmetric] by (simp add: binary32_def)
  moreover have "emin binary32 - int (prec binary32) + 1 \<le> k + 1"
    using m(3) by simp
  ultimately show ?thesis
    unfolding e using m(2) by (intro round_to_exact valid_formats)
qed

lemma span_overflow: "2 ^ 127 \<le> \<bar>R\<bar> \<Longrightarrow> round_to binary32 (R * 2) = Infinity (R < 0)"
  using round_to_overflow [OF valid_formats(1), of "R * 2"]
  by (simp add: binary32_def mult_less_0_iff)

lemma transferPressure_fp_infinite_span:
  assumes d: "dbl = binary32 \<or> dbl = binary64" and b: "2 ^ 127 \<le> \<bar>R\<bar>"
  shows "transferPressure_fp dbl (AllSensors_DLV_fp mem DIFFERENTIAL (Finite R)) 8192 = NaN"
proof -
  let ?s = "AllSensors_DLV_fp mem DIFFERENTIAL (Finite R)"
  have v: "valid dbl" using d valid_formats by auto
  have "float_of_ulong 8192 = Finite 8192"
    using binary32_int [of 8192] by (simp add: float_of_ulong_def)
  then have "fsub binary32 (float_of_ulong 8192) (pressure_zero_ref_fp ?s) = Finite 0"
    by (simp add: AllSensors_DLV_fp_fields round_to_zero valid_formats)
  moreover have "float_of_int (uint FULL_SCALE_REF) = Finite 16384"
    using float_of_int_small [of 16384] by (simp add: FULL_SCALE_REF_def)
  ultimately have "fdiv binary32 (fsub binary32 (float_of_ulong 8192) (pressure_zero_ref_fp ?s))
                     (float_of_int (uint FULL_SCALE_REF)) = Finite 0"
    by (simp add: round_to_zero valid_formats)
  then show ?thesis
    unfolding transferPressure_fp_def double_five_quarters [OF d]
    by (simp add: AllSensors_DLV_fp_fields span_overflow [OF b] round_to_zero [OF v])
qed

lemma binary32_whole:
  assumes i: "\<bar>i\<bar> < 16384" and n: "n \<le> 120"
  shows "is_binary32 (1.25 * (of_int i / 16384) * real n)"
proof -
  have e: "1.25 * (of_int i / 16384) * real n = of_int (5 * i * int n) * 2 powi (- 16)"
    by (simp add: power_int_minus_divide)
  have "\<bar>i\<bar> * int n \<le> 16383 * 120"
    using i n by (intro mult_mono) simp_all
  then have m: "\<bar>5 * i * int n\<bar> < 2 ^ prec binary32"
    by (simp add: abs_mult binary32_def)
  then have "(of_int \<bar>5 * i * int n\<bar> :: real) < of_int (2 ^ 24)"
    by (simp only: of_int_less_iff binary32_def fmt.simps)
  then have "\<bar>of_int (5 * i * int n) * 2 powi (- 16) :: real\<bar> < 2 powi (emax binary32 + 1)"
    by (simp add: abs_mult binary32_def power_int_minus_divide)
  with m show ?thesis
    unfolding is_binary32_def e by (intro round_to_exact) (simp_all add: valid_def binary32_def)
qed

lemma binary32_rounds_tenth_step:
  "round_to binary32 (67108865 / 8796093022208) = Finite (1 / 131072)"
proof -
  have "expo binary32 \<bar>67108865 / 8796093022208\<bar> = - 17"
    by (rule expo_eq) (simp_all add: valid_def binary32_def power_int_minus_divide)
  then show ?thesis
    by (simp add: round_to_def Let_def binary32_def round_half_even_def power_int_minus_divide)
qed

section \<open>The properties of the specification\<close>

text \<open>
  C1, as amended. For every pressure code in 0..16383 and every rating \<open>R\<close> that is a
  binary32 number, the pressure transfer function returns
  \<open>1.25 * ((code - zero reference) / 16384) * span\<close> rounded once to binary32 (to nearest,
  ties to even, to an infinity on overflow): with 1638 and \<open>R\<close> on an object constructed
  as GAGE or ABSOLUTE, and with 8192 and \<open>2 * R\<close> on one constructed as DIFFERENTIAL whose
  doubled rating is finite, that is \<open>\<bar>R\<bar> < 2 ^ 127\<close>. Such a DIFFERENTIAL object yields 0
  at the code 8192. This holds whether \<open>double\<close> is binary32 or binary64.
\<close>

theorem transferPressure_fp_formula:
  assumes d: "dbl = binary32 \<or> dbl = binary64"
    and c: "pressureCode \<le> 16383"
    and r: "is_binary32 R"
  shows "transferPressure_fp dbl (AllSensors_DLV_fp mem GAGE (Finite R)) (of_nat pressureCode)
           = round_to binary32 (1.25 * ((real pressureCode - 1638) / 16384) * R)
       \<and> transferPressure_fp dbl (AllSensors_DLV_fp mem ABSOLUTE (Finite R)) (of_nat pressureCode)
           = round_to binary32 (1.25 * ((real pressureCode - 1638) / 16384) * R)
       \<and> (\<bar>R\<bar> < 2 ^ 127 \<longrightarrow>
            transferPressure_fp dbl (AllSensors_DLV_fp mem DIFFERENTIAL (Finite R)) (of_nat pressureCode)
              = round_to binary32 (1.25 * ((real pressureCode - 8192) / 16384) * (2 * R)))
       \<and> (\<bar>R\<bar> < 2 ^ 127 \<longrightarrow>
            transferPressure_fp dbl (AllSensors_DLV_fp mem DIFFERENTIAL (Finite R)) 8192 = Finite 0)"
proof -
  have g: "transferPressure_fp dbl (AllSensors_DLV_fp mem GAGE (Finite R)) (of_nat pressureCode)
             = round_to binary32 (1.25 * ((real pressureCode - 1638) / 16384) * R)"
    using transferPressure_fp_core [OF d c, of 1638 "AllSensors_DLV_fp mem GAGE (Finite R)" R] r
    by (simp add: AllSensors_DLV_fp_fields)
  have a: "transferPressure_fp dbl (AllSensors_DLV_fp mem ABSOLUTE (Finite R)) (of_nat pressureCode)
             = round_to binary32 (1.25 * ((real pressureCode - 1638) / 16384) * R)"
    using transferPressure_fp_core [OF d c, of 1638 "AllSensors_DLV_fp mem ABSOLUTE (Finite R)" R] r
    by (simp add: AllSensors_DLV_fp_fields)
  have df: "transferPressure_fp dbl (AllSensors_DLV_fp mem DIFFERENTIAL (Finite R)) (of_nat n)
             = round_to binary32 (1.25 * ((real n - 8192) / 16384) * (2 * R))"
    if b: "\<bar>R\<bar> < 2 ^ 127" and n: "n \<le> 16383" for n
  proof -
    have s: "round_to binary32 (R * 2) = Finite (2 * R)"
      using r b by (rule span_finite)
    have "\<bar>2 * R\<bar> < 2 powi (emax binary32 + 1)"
      using b by (simp add: binary32_def)
    have "is_binary32 (2 * R)"
      using round_to_idem [OF valid_formats(1) s] by (simp add: is_binary32_def)
    with transferPressure_fp_core [OF d n, of 8192 "AllSensors_DLV_fp mem DIFFERENTIAL (Finite R)" "2 * R"]
    show ?thesis
      by (simp add: AllSensors_DLV_fp_fields s)
  qed
  have z: "transferPressure_fp dbl (AllSensors_DLV_fp mem DIFFERENTIAL (Finite R)) 8192 = Finite 0"
    if b: "\<bar>R\<bar> < 2 ^ 127"
    using df [OF b, of 8192] by (simp add: round_to_zero valid_formats)
  show ?thesis
    using g a df [OF _ c] z by blast
qed

theorem transferPressure_fp_formula_witness:
  "(binary64 = binary32 \<or> binary64 = binary64) \<and> (16383 :: nat) \<le> 16383 \<and> is_binary32 5
   \<and> \<bar>5 :: real\<bar> < 2 ^ 127
   \<and> transferPressure_fp binary64 (AllSensors_DLV_fp zeroCal DIFFERENTIAL (Finite 5)) (of_nat 16383)
       = round_to binary32 (1.25 * ((real 16383 - 8192) / 16384) * (2 * 5))
   \<and> transferPressure_fp binary64 (AllSensors_DLV_fp zeroCal DIFFERENTIAL (Finite 5)) 8192 = Finite 0"
proof -
  have d: "binary64 = binary32 \<or> binary64 = binary64" by simp
  have c: "(16383 :: nat) \<le> 16383" by simp
  have r: "is_binary32 5" using is_binary32_int [of 5] by simp
  have b: "\<bar>5 :: real\<bar> < 2 ^ 127" by simp
  show ?thesis
    using transferPressure_fp_formula [OF d c r, of zeroCal] r b by simp
qed

text \<open>
  The claim as first stated, with the exact value of the formula for every rating, fails:
  a DIFFERENTIAL object with the rating 3e38f, the binary32 number \<open>14791142 * 2 ^ 104\<close>,
  has the span \<open>pressure_max * 2\<close> = +infinity, and at the code 8192 the transfer
  function computes \<open>1.25 * (0 / 16384) * infinity\<close>, which is NaN and not 0.
\<close>

theorem transferPressure_fp_counterexample:
  "is_binary32 (14791142 * 2 ^ 104)
   \<and> transferPressure_fp binary64
         (AllSensors_DLV_fp zeroCal DIFFERENTIAL (Finite (14791142 * 2 ^ 104))) 8192 = NaN
   \<and> transferPressure_fp binary64
         (AllSensors_DLV_fp zeroCal DIFFERENTIAL (Finite (14791142 * 2 ^ 104))) 8192 \<noteq> Finite 0"
proof -
  have "round_to binary32 (of_int 14791142 * 2 powi 104) = Finite (of_int 14791142 * 2 powi 104)"
    by (rule round_to_exact) (simp_all add: valid_def binary32_def)
  then have r: "is_binary32 (14791142 * 2 ^ 104)"
    by (simp add: is_binary32_def)
  have "(2 :: real) ^ 127 \<le> \<bar>14791142 * 2 ^ 104\<bar>"
    by simp
  then have "transferPressure_fp binary64
         (AllSensors_DLV_fp zeroCal DIFFERENTIAL (Finite (14791142 * 2 ^ 104))) 8192 = NaN"
    by (intro transferPressure_fp_infinite_span) simp
  with r show ?thesis
    by simp
qed

text \<open>
  C2. For every frame of four bytes the decoder yields the status
  \<open>(byte0 >> 6) & 0b11\<close>, the pressure code \<open>((byte0 & 0b00111111) << 8) | byte1\<close> and the
  temperature code \<open>(byte2 << 3) | ((byte3 & 0b11100000) >> 5)\<close>, the right-hand sides read
  as operations on unbounded integers. The frame C0 00 00 00 decodes to (3, 0, 0) and
  the frame 3F FF FF E0 to (0, 16383, 2047).
\<close>

theorem decoder_fields:
  fixes byte0 byte1 byte2 byte3 :: uint8_t
  shows "extractStatus (s\<lparr>raw_data := nth [byte0, byte1, byte2, byte3]\<rparr>)
           = drop_bit 6 (uint byte0) AND 0b11
       \<and> uint (extractIntegerPressure (s\<lparr>raw_data := nth [byte0, byte1, byte2, byte3]\<rparr>))
           = push_bit 8 (uint byte0 AND 0b00111111) OR uint byte1
       \<and> uint (extractIntegerTemperature (s\<lparr>raw_data := nth [byte0, byte1, byte2, byte3]\<rparr>))
           = push_bit 3 (uint byte2) OR drop_bit 5 (uint byte3 AND 0b11100000)
       \<and> extractStatus (s\<lparr>raw_data := nth [0xC0, 0x00, 0x00, 0x00]\<rparr>) = 3
       \<and> extractIntegerPressure (s\<lparr>raw_data := nth [0xC0, 0x00, 0x00, 0x00]\<rparr>) = 0
       \<and> extractIntegerTemperature (s\<lparr>raw_data := nth [0xC0, 0x00, 0x00, 0x00]\<rparr>) = 0
       \<and> extractStatus (s\<lparr>raw_data := nth [0x3F, 0xFF, 0xFF, 0xE0]\<rparr>) = 0
       \<and> extractIntegerPressure (s\<lparr>raw_data := nth [0x3F, 0xFF, 0xFF, 0xE0]\<rparr>) = 16383
       \<and> extractIntegerTemperature (s\<lparr>raw_data := nth [0x3F, 0xFF, 0xFF, 0xE0]\<rparr>) = 2047"
proof -
  let ?s = "s\<lparr>raw_data := nth [byte0, byte1, byte2, byte3]\<rparr>"
  have "extractStatus ?s = drop_bit 6 (uint byte0) AND 0b11"
    by (simp add: extractStatus_bits)
  moreover have "uint (extractIntegerPressure ?s) = push_bit 8 (uint byte0 AND 0b00111111) OR uint byte1"
    by (simp add: extractIntegerPressure_bits)
  moreover have "uint (extractIntegerTemperature ?s) = push_bit 3 (uint byte2) OR drop_bit 5 (uint byte3 AND 0b11100000)"
    by (simp add: extractIntegerTemperature_bits)
  moreover have "extractStatus (s\<lparr>raw_data := nth [0xC0, 0x00, 0x00, 0x00]\<rparr>) = 3"
    "extractIntegerPressure (s\<lparr>raw_data := nth [0xC0, 0x00, 0x00, 0x00]\<rparr>) = 0"
    "extractIntegerTemperature (s\<lparr>raw_data := nth [0xC0, 0x00, 0x00, 0x00]\<rparr>) = 0"
    "extractStatus (s\<lparr>raw_data := nth [0x3F, 0xFF, 0xFF, 0xE0]\<rparr>) = 0"
    "extractIntegerPressure (s\<lparr>raw_data := nth [0x3F, 0xFF, 0xFF, 0xE0]\<rparr>) = 16383"
    "extractIntegerTemperature (s\<lparr>raw_data := nth [0x3F, 0xFF, 0xFF, 0xE0]\<rparr>) = 2047"
    by (simp_all add: extractStatus_def extractIntegerPressure_def extractIntegerTemperature_def)
  ultimately show ?thesis
    by blast
qed

text \<open>
  C3. For every temperature code in 0..2047 the temperature transfer function returns
  \<open>code * (200 / 2047) - 50\<close>; that is -50 at the code 0 and 150 at the code 2047.
\<close>

theorem transferTemperature_formula:
  assumes "temperatureCode \<le> 2047"
  shows "transferTemperature s (of_nat temperatureCode) = real temperatureCode * (200.0 / 2047.0) - 50.0
       \<and> transferTemperature s 0 = - 50.0
       \<and> transferTemperature s 2047 = 150.0"
proof -
  have "unat (of_nat temperatureCode :: unsigned_long) = temperatureCode"
    using assms by (simp add: unat_of_nat)
  then show ?thesis
    by (simp add: transferTemperature_def)
qed

theorem transferTemperature_formula_witness:
  "(1024 :: nat) \<le> 2047 \<and> transferTemperature zeroMem (of_nat 1024) = 1024 * (200.0 / 2047.0) - 50.0"
  using transferTemperature_formula [of 1024 zeroMem] by simp

text \<open>
  C4. \<open>readData\<close> returns true exactly when the status decoded from the frame it has
  just read is ERROR, whatever the pressure and temperature fields hold; it returns false
  exactly when that status is CURRENT, RESERVED or STALE\_DATA. On the queue transport,
  for every frame of four bytes, it returns true exactly when the top two bits of the
  first byte are 11.
\<close>

theorem readData_reports_error:
  fixes byte0 byte1 byte2 byte3 :: uint8_t
  shows "fst (readData w s) = (extractStatus (snd (readData w s)) = ERROR)
       \<and> (\<not> fst (readData w s)) = (extractStatus (snd (readData w s)) \<in> {CURRENT, RESERVED, STALE_DATA})
       \<and> fst (readData queueWire (s0\<lparr>bus := [uint byte0, uint byte1, uint byte2, uint byte3]\<rparr>))
           = (drop_bit 6 (uint byte0) AND 0b11 = 3)"
proof -
  let ?r = "readData w s"
  have r: "fst ?r = (extractStatus (snd ?r) = ERROR)"
    by (rule readData_result)
  have "extractStatus (snd ?r) \<in> {0, 1, 2, 3}"
    using extractStatus_range [of "snd ?r"] by auto
  then have n: "(\<not> fst ?r) = (extractStatus (snd ?r) \<in> {CURRENT, RESERVED, STALE_DATA})"
    unfolding r by (auto simp: CURRENT_def RESERVED_def STALE_DATA_def ERROR_def)
  let ?q = "readData queueWire (s0\<lparr>bus := [uint byte0, uint byte1, uint byte2, uint byte3]\<rparr>)"
  have "fst ?q = (extractStatus (snd ?q) = ERROR)"
    by (rule readData_result)
  then have q: "fst ?q = (drop_bit 6 (uint byte0) AND 0b11 = 3)"
    by (simp add: readData_queueWire_raw_data extractStatus_bits ERROR_def)
  show ?thesis
    using r n q by blast
qed



text \<open>
  C7. With a pressure unit that is none of PSI, IN\_H2O, PASCAL and a temperature unit
  that is none of CELCIUS, FAHRENHEIT, KELVIN, both converters return their input.
\<close>

theorem unit_converters_fallback:
  assumes "pu \<notin> {PSI, IN_H2O, PASCAL}" and "tu \<notin> {CELCIUS, FAHRENHEIT, KELVIN}"
  shows "convertPressure (setPressureUnit pu s) psi = psi
       \<and> convertTemperature (setTemperatureUnit tu s) c = c"
  using assms
  by (simp add: convertPressure_def convertTemperature_def setPressureUnit_def setTemperatureUnit_def)

theorem unit_converters_fallback_witness:
  "(0 :: PressureUnit) \<notin> {PSI, IN_H2O, PASCAL} \<and> (255 :: TemperatureUnit) \<notin> {CELCIUS, FAHRENHEIT, KELVIN}
   \<and> convertPressure (setPressureUnit 0 zeroMem) 14.7 = 14.7
   \<and> convertTemperature (setTemperatureUnit 255 zeroMem) 21.5 = 21.5"
proof -
  have p: "(0 :: PressureUnit) \<notin> {PSI, IN_H2O, PASCAL}"
    by (simp add: PSI_def IN_H2O_def PASCAL_def)
  have t: "(255 :: TemperatureUnit) \<notin> {CELCIUS, FAHRENHEIT, KELVIN}"
    by (simp add: CELCIUS_def FAHRENHEIT_def KELVIN_def)
  show ?thesis
    using p t unit_converters_fallback [OF p t, of zeroMem "14.7" "21.5"] by simp
qed

text \<open>
  C8. The decoder has no failing branch, and on every frame of four bytes the status is
  one of 0, 1, 2, 3, the pressure code lies in 0..16383 and the temperature code in
  0..2047.
\<close>

theorem decoder_total_in_range:
  fixes byte0 byte1 byte2 byte3 :: uint8_t
  shows "extractStatus (s\<lparr>raw_data := nth [byte0, byte1, byte2, byte3]\<rparr>) \<in> {CURRENT, RESERVED, STALE_DATA, ERROR}
       \<and> extractStatus (s\<lparr>raw_data := nth [byte0, byte1, byte2, byte3]\<rparr>) \<in> {0, 1, 2, 3}
       \<and> unat (extractIntegerPressure (s\<lparr>raw_data := nth [byte0, byte1, byte2, byte3]\<rparr>)) \<in> {0..16383}
       \<and> unat (extractIntegerTemperature (s\<lparr>raw_data := nth [byte0, byte1, byte2, byte3]\<rparr>)) \<in> {0..2047}"
proof -
  let ?s = "s\<lparr>raw_data := nth [byte0, byte1, byte2, byte3]\<rparr>"
  have "0 \<le> extractStatus ?s \<and> extractStatus ?s \<le> 3"
    by (rule extractStatus_range)
  then have st: "extractStatus ?s \<in> {0, 1, 2, 3}"
    by auto
  show ?thesis
    using st extractIntegerPressure_range [of ?s] extractIntegerTemperature_range [of ?s]
    by (simp add: CURRENT_def RESERVED_def STALE_DATA_def ERROR_def)
qed

text \<open>
  C9. Whatever the sensor type and the rating, a freshly constructed object has the
  pressure unit PSI and the temperature unit CELCIUS, and both converters are the identity
  on it. As long as no setter is called this stays so through any number of
  acquisitions, and each acquisition stores the plain results of the two transfer
  functions.
\<close>

theorem default_units:
  "pressure_unit (AllSensors_DLV mem b t R) = PSI
   \<and> temperature_unit (AllSensors_DLV mem b t R) = CELCIUS
   \<and> convertPressure (AllSensors_DLV mem b t R) psi = psi
   \<and> convertTemperature (AllSensors_DLV mem b t R) c = c
   \<and> pressure_unit (((\<lambda>s. snd (readData w s)) ^^ n) (AllSensors_DLV mem b t R)) = PSI
   \<and> temperature_unit (((\<lambda>s. snd (readData w s)) ^^ n) (AllSensors_DLV mem b t R)) = CELCIUS
   \<and> pressure (((\<lambda>s. snd (readData w s)) ^^ Suc n) (AllSensors_DLV mem b t R))
       = transferPressure (AllSensors_DLV mem b t R)
           (ucast (raw_p (((\<lambda>s. snd (readData w s)) ^^ Suc n) (AllSensors_DLV mem b t R))))
   \<and> temperature (((\<lambda>s. snd (readData w s)) ^^ Suc n) (AllSensors_DLV mem b t R))
       = transferTemperature (AllSensors_DLV mem b t R)
           (ucast (raw_t (((\<lambda>s. snd (readData w s)) ^^ Suc n) (AllSensors_DLV mem b t R))))"
proof -
  let ?s0 = "AllSensors_DLV mem b t R"
  let ?sn = "((\<lambda>s. snd (readData w s)) ^^ n) ?s0"
  have u: "pressure_unit ?sn = PSI" "temperature_unit ?sn = CELCIUS"
    by (simp_all add: readData_iterate_config AllSensors_DLV_units)
  have c: "convertPressure ?sn psi' = psi'" "convertTemperature ?sn c' = c'" for psi' c'
    by (simp_all add: convert_identity u)
  have t: "transferPressure ?sn = transferPressure ?s0" "transferTemperature ?sn = transferTemperature ?s0"
    by (rule transfer_cong; simp add: readData_iterate_config)+
  have p: "pressure (snd (readData w ?sn)) = transferPressure ?s0 (ucast (raw_p (snd (readData w ?sn))))"
    by (simp only: readData_reading c t)
  have q: "temperature (snd (readData w ?sn)) = transferTemperature ?s0 (ucast (raw_t (snd (readData w ?sn))))"
    by (simp only: readData_reading c t)
  have "convertPressure ?s0 psi = psi" "convertTemperature ?s0 c = c"
    by (simp_all add: convert_identity AllSensors_DLV_units)
  then show ?thesis
    using u p q by (simp add: AllSensors_DLV_units)
qed

text \<open>
  C10. \<open>readData\<close> stores the status decoded from the frame it has read and the
  converted pressure and temperature of that frame, with no condition on the status; the
  status, pressure and temperature the object held before have no influence on the
  result. On the queue transport, for every frame of four bytes, the three members are
  those the decoder, the transfer functions and the converters give for that frame.
\<close>

theorem readData_overwrites:
  fixes byte0 byte1 byte2 byte3 :: uint8_t
  shows "status (snd (readData w s)) = extractStatus (snd (readData w s))
       \<and> pressure (snd (readData w s))
           = convertPressure s (transferPressure s (ucast (extractIntegerPressure (snd (readData w s)))))
       \<and> temperature (snd (readData w s))
           = convertTemperature s (transferTemperature s (ucast (extractIntegerTemperature (snd (readData w s)))))
       \<and> readData w (s\<lparr>status := st, pressure := p, temperature := t\<rparr>) = readData w s
       \<and> status (snd (readData queueWire (s0\<lparr>bus := [uint byte0, uint byte1, uint byte2, uint byte3]\<rparr>)))
           = extractStatus (s0\<lparr>raw_data := nth [byte0, byte1, byte2, byte3]\<rparr>)
       \<and> pressure (snd (readData queueWire (s0\<lparr>bus := [uint byte0, uint byte1, uint byte2, uint byte3]\<rparr>)))
           = convertPressure s0 (transferPressure s0
               (ucast (extractIntegerPressure (s0\<lparr>raw_data := nth [byte0, byte1, byte2, byte3]\<rparr>))))
       \<and> temperature (snd (readData queueWire (s0\<lparr>bus := [uint byte0, uint byte1, uint byte2, uint byte3]\<rparr>)))
           = convertTemperature s0 (transferTemperature s0
               (ucast (extractIntegerTemperature (s0\<lparr>raw_data := nth [byte0, byte1, byte2, byte3]\<rparr>))))"
proof -
  let ?q = "s0\<lparr>bus := [uint byte0, uint byte1, uint byte2, uint byte3]\<rparr>"
  have c: "convertPressure ?q = convertPressure s0" "convertTemperature ?q = convertTemperature s0"
    "transferPressure ?q = transferPressure s0" "transferTemperature ?q = transferTemperature s0"
    by (simp_all add: fun_eq_iff convertPressure_def convertTemperature_def transferPressure_def
        transferTemperature_def)
  have q: "status (snd (readData queueWire ?q)) = extractStatus (s0\<lparr>raw_data := nth [byte0, byte1, byte2, byte3]\<rparr>)"
    "pressure (snd (readData queueWire ?q))
       = convertPressure s0 (transferPressure s0
           (ucast (extractIntegerPressure (s0\<lparr>raw_data := nth [byte0, byte1, byte2, byte3]\<rparr>))))"
    "temperature (snd (readData queueWire ?q))
       = convertTemperature s0 (transferTemperature s0
           (ucast (extractIntegerTemperature (s0\<lparr>raw_data := nth [byte0, byte1, byte2, byte3]\<rparr>))))"
    by (simp_all only: readData_reading readData_queueWire_fields c)
  show ?thesis
    using readData_reading [of w s] readData_forgets [where w = w and s = s and st = st and p = p and t = t] q by simp
qed

section \<open>More on the pressure path\<close>

text \<open>
  With a whole-number rating up to 60, as on all shipped models, no step rounds and the
  transfer function returns the exact value of the formula.
\<close>

lemma transferPressure_fp_whole_ratings:
  assumes d: "dbl = binary32 \<or> dbl = binary64" and c: "pressureCode \<le> 16383" and n: "n \<le> 60"
  shows "transferPressure_fp dbl (AllSensors_DLV_fp mem GAGE (Finite (real n))) (of_nat pressureCode)
           = Finite (1.25 * ((real pressureCode - 1638) / 16384) * real n)"
    and "transferPressure_fp dbl (AllSensors_DLV_fp mem ABSOLUTE (Finite (real n))) (of_nat pressureCode)
           = Finite (1.25 * ((real pressureCode - 1638) / 16384) * real n)"
    and "transferPressure_fp dbl (AllSensors_DLV_fp mem DIFFERENTIAL (Finite (real n))) (of_nat pressureCode)
           = Finite (1.25 * ((real pressureCode - 8192) / 16384) * (2 * real n))"
proof -
  have r: "is_binary32 (real n)" "is_binary32 (real (2 * n))"
    using n is_binary32_int [of "int n"] is_binary32_int [of "int (2 * n)"] by simp_all
  have s: "round_to binary32 (real n * 2) = Finite (real (2 * n))"
    using r(2) by (simp add: is_binary32_def mult.commute)
  have x: "is_binary32 (1.25 * ((real pressureCode - of_int z) / 16384) * real k)"
    if "0 \<le> z" "z \<le> 16383" "k \<le> 120" for z k
    using binary32_whole [of "int pressureCode - z" k] c that by simp
  show "transferPressure_fp dbl (AllSensors_DLV_fp mem GAGE (Finite (real n))) (of_nat pressureCode)
           = Finite (1.25 * ((real pressureCode - 1638) / 16384) * real n)"
    using transferPressure_fp_core [OF d c, of 1638 "AllSensors_DLV_fp mem GAGE (Finite (real n))" "real n"]
      r(1) x [of 1638 n] n
    by (simp add: AllSensors_DLV_fp_fields is_binary32_def)
  show "transferPressure_fp dbl (AllSensors_DLV_fp mem ABSOLUTE (Finite (real n))) (of_nat pressureCode)
           = Finite (1.25 * ((real pressureCode - 1638) / 16384) * real n)"
    using transferPressure_fp_core [OF d c, of 1638 "AllSensors_DLV_fp mem ABSOLUTE (Finite (real n))" "real n"]
      r(1) x [of 1638 n] n
    by (simp add: AllSensors_DLV_fp_fields is_binary32_def)
  show "transferPressure_fp dbl (AllSensors_DLV_fp mem DIFFERENTIAL (Finite (real n))) (of_nat pressureCode)
           = Finite (1.25 * ((real pressureCode - 8192) / 16384) * (2 * real n))"
    using transferPressure_fp_core [OF d c, of 8192 "AllSensors_DLV_fp mem DIFFERENTIAL (Finite (real n))" "real (2 * n)"]
      r(2) x [of 8192 "2 * n"] n
    by (simp add: AllSensors_DLV_fp_fields s is_binary32_def)
qed

text \<open>
  With other ratings the last step rounds: a GAGE object with the rating 0.1f, the
  binary32 number \<open>13421773 / 2 ^ 27\<close>, returns \<open>2 ^ -17\<close> at the code 1639, where the formula
  has the value \<open>67108865 / 2 ^ 43\<close>.
\<close>

lemma transferPressure_fp_rounds:
  "is_binary32 (13421773 / 134217728)
   \<and> transferPressure_fp binary64 (AllSensors_DLV_fp zeroCal GAGE (Finite (13421773 / 134217728))) 1639
       = Finite (1 / 131072)
   \<and> 1.25 * ((1639 - 1638) / 16384) * (13421773 / 134217728) \<noteq> (1 / 131072 :: real)"
proof -
  have "round_to binary32 (of_int 13421773 * 2 powi (- 27)) = Finite (of_int 13421773 * 2 powi (- 27))"
    by (rule round_to_exact) (simp_all add: valid_def binary32_def power_int_minus_divide)
  then have r: "is_binary32 (13421773 / 134217728)"
    by (simp add: is_binary32_def power_int_minus_divide)
  have "transferPressure_fp binary64 (AllSensors_DLV_fp zeroCal GAGE (Finite (13421773 / 134217728))) (of_nat 1639)
          = round_to binary32 (1.25 * ((real 1639 - of_int 1638) / 16384) * (13421773 / 134217728))"
    by (rule transferPressure_fp_core) (simp_all add: AllSensors_DLV_fp_fields r)
  then have "transferPressure_fp binary64 (AllSensors_DLV_fp zeroCal GAGE (Finite (13421773 / 134217728))) 1639
          = Finite (1 / 131072)"
    using binary32_rounds_tenth_step by simp
  with r show ?thesis
    by simp
qed

text \<open>
  Whenever the span is finite, the floating-point transfer function returns the rounded
  result of the exact one on the object \<open>AllSensors_DLV\<close> constructs.
\<close>

lemma transferPressure_fp_refines:
  assumes d: "dbl = binary32 \<or> dbl = binary64" and c: "pressureCode \<le> 16383" and r: "is_binary32 R"
  shows "transferPressure_fp dbl (AllSensors_DLV_fp cal GAGE (Finite R)) (of_nat pressureCode)
           = round_to binary32 (transferPressure (AllSensors_DLV mem b GAGE R) (of_nat pressureCode))"
    and "transferPressure_fp dbl (AllSensors_DLV_fp cal ABSOLUTE (Finite R)) (of_nat pressureCode)
           = round_to binary32 (transferPressure (AllSensors_DLV mem b ABSOLUTE R) (of_nat pressureCode))"
    and "\<bar>R\<bar> < 2 ^ 127 \<Longrightarrow>
         transferPressure_fp dbl (AllSensors_DLV_fp cal DIFFERENTIAL (Finite R)) (of_nat pressureCode)
           = round_to binary32 (transferPressure (AllSensors_DLV mem b DIFFERENTIAL R) (of_nat pressureCode))"
proof -
  have u: "unat (of_nat pressureCode :: unsigned_long) = pressureCode"
    using c by (simp add: unat_of_nat)
  have g: "pressure_zero_ref (AllSensors_DLV mem b GAGE R) = 1638" "pressure_range (AllSensors_DLV mem b GAGE R) = R"
    "pressure_zero_ref (AllSensors_DLV mem b ABSOLUTE R) = 1638" "pressure_range (AllSensors_DLV mem b ABSOLUTE R) = R"
    "pressure_zero_ref (AllSensors_DLV mem b DIFFERENTIAL R) = 8192" "pressure_range (AllSensors_DLV mem b DIFFERENTIAL R) = 2 * R"
    by (simp_all add: AllSensors_DLV_def GAGE_def ABSOLUTE_def DIFFERENTIAL_def)
  show "transferPressure_fp dbl (AllSensors_DLV_fp cal GAGE (Finite R)) (of_nat pressureCode)
           = round_to binary32 (transferPressure (AllSensors_DLV mem b GAGE R) (of_nat pressureCode))"
    using transferPressure_fp_core [OF d c, of 1638 "AllSensors_DLV_fp cal GAGE (Finite R)" R] r
    by (simp add: AllSensors_DLV_fp_fields transferPressure_def u g FULL_SCALE_REF_value)
  show "transferPressure_fp dbl (AllSensors_DLV_fp cal ABSOLUTE (Finite R)) (of_nat pressureCode)
           = round_to binary32 (transferPressure (AllSensors_DLV mem b ABSOLUTE R) (of_nat pressureCode))"
    using transferPressure_fp_core [OF d c, of 1638 "AllSensors_DLV_fp cal ABSOLUTE (Finite R)" R] r
    by (simp add: AllSensors_DLV_fp_fields transferPressure_def u g FULL_SCALE_REF_value)
  assume b: "\<bar>R\<bar> < 2 ^ 127"
  have s: "round_to binary32 (R * 2) = Finite (2 * R)"
    using r b by (rule span_finite)
  have "is_binary32 (2 * R)"
    using round_to_idem [OF valid_formats(1) s] by (simp add: is_binary32_def)
  with transferPressure_fp_core [OF d c, of 8192 "AllSensors_DLV_fp cal DIFFERENTIAL (Finite R)" "2 * R"]
  show "transferPressure_fp dbl (AllSensors_DLV_fp cal DIFFERENTIAL (Finite R)) (of_nat pressureCode)
           = round_to binary32 (transferPressure (AllSensors_DLV mem b DIFFERENTIAL R) (of_nat pressureCode))"
    by (simp add: AllSensors_DLV_fp_fields s transferPressure_def u g FULL_SCALE_REF_value)
qed

section \<open>Runs of the driver\<close>

text \<open>
  A DLV-005D on the queue transport. An error frame alone: the acquisition returns true
  and the reading is that of the error frame.
\<close>

lemma run_error_frame:
  "fst (readData queueWire (AllSensors_DLV_005D zeroMem [0xC0, 0x00, 0x00, 0x00]))
   \<and> status (snd (readData queueWire (AllSensors_DLV_005D zeroMem [0xC0, 0x00, 0x00, 0x00]))) = ERROR
   \<and> pressure (snd (readData queueWire (AllSensors_DLV_005D zeroMem [0xC0, 0x00, 0x00, 0x00]))) = - 6.25
   \<and> temperature (snd (readData queueWire (AllSensors_DLV_005D zeroMem [0xC0, 0x00, 0x00, 0x00]))) = - 50"
proof -
  let ?s = "AllSensors_DLV_005D zeroMem [0xC0, 0x00, 0x00, 0x00]"
  have b: "bus ?s = [0xC0, 0x00, 0x00, 0x00]"
    by (simp add: AllSensors_DLV_005D_def AllSensors_DLV_bus)
  have c: "pressure_unit ?s = PSI" "temperature_unit ?s = CELCIUS"
    "pressure_zero_ref ?s = 8192" "pressure_range ?s = 10"
    by (simp_all add: AllSensors_DLV_005D_def AllSensors_DLV_def GAGE_def ABSOLUTE_def DIFFERENTIAL_def)
  show ?thesis
    by (simp add: readData_queueWire [OF b] Let_def extractStatus_def extractIntegerPressure_def
        extractIntegerTemperature_def convert_identity c transferPressure_def transferTemperature_def
        FULL_SCALE_REF_value ERROR_def)
qed

text \<open>
  A full-scale frame followed by an error frame: the second acquisition returns true and
  replaces the reading of the first.
\<close>

lemma run_good_then_error_frame:
  "pressure (snd (readData queueWire
      (AllSensors_DLV_005D zeroMem [0x3F, 0xFF, 0xFF, 0xE0, 0xC0, 0x00, 0x00, 0x00]))) = 8191 / 16384 * 12.5
   \<and> \<not> fst (readData queueWire
      (AllSensors_DLV_005D zeroMem [0x3F, 0xFF, 0xFF, 0xE0, 0xC0, 0x00, 0x00, 0x00]))
   \<and> temperature (snd (readData queueWire
      (AllSensors_DLV_005D zeroMem [0x3F, 0xFF, 0xFF, 0xE0, 0xC0, 0x00, 0x00, 0x00]))) = 150
   \<and> fst (readData queueWire (snd (readData queueWire
      (AllSensors_DLV_005D zeroMem [0x3F, 0xFF, 0xFF, 0xE0, 0xC0, 0x00, 0x00, 0x00]))))
   \<and> pressure (snd (readData queueWire (snd (readData queueWire
      (AllSensors_DLV_005D zeroMem [0x3F, 0xFF, 0xFF, 0xE0, 0xC0, 0x00, 0x00, 0x00]))))) = - 6.25
   \<and> temperature (snd (readData queueWire (snd (readData queueWire
      (AllSensors_DLV_005D zeroMem [0x3F, 0xFF, 0xFF, 0xE0, 0xC0, 0x00, 0x00, 0x00]))))) = - 50"
proof -
  let ?s = "AllSensors_DLV_005D zeroMem [0x3F, 0xFF, 0xFF, 0xE0, 0xC0, 0x00, 0x00, 0x00]"
  let ?s1 = "snd (readData queueWire ?s)"
  have b: "bus ?s = [0x3F, 0xFF, 0xFF, 0xE0, 0xC0, 0x00, 0x00, 0x00]"
    by (simp add: AllSensors_DLV_005D_def AllSensors_DLV_bus)
  have c: "pressure_unit ?s = PSI" "temperature_unit ?s = CELCIUS"
    "pressure_zero_ref ?s = 8192" "pressure_range ?s = 10"
    by (simp_all add: AllSensors_DLV_005D_def AllSensors_DLV_def GAGE_def ABSOLUTE_def DIFFERENTIAL_def)
  have b1: "bus ?s1 = [0xC0, 0x00, 0x00, 0x00]"
    by (simp add: readData_queueWire [OF b] Let_def)
  have c1: "pressure_unit ?s1 = PSI" "temperature_unit ?s1 = CELCIUS"
    "pressure_zero_ref ?s1 = 8192" "pressure_range ?s1 = 10"
    by (simp_all add: readData_config c)
  have first: "pressure ?s1 = 8191 / 16384 * 12.5" "\<not> fst (readData queueWire ?s)" "temperature ?s1 = 150"
    by (simp_all add: readData_queueWire [OF b] Let_def extractStatus_def extractIntegerPressure_def
        extractIntegerTemperature_def convert_identity c transferPressure_def transferTemperature_def
        FULL_SCALE_REF_value ERROR_def)
  have second: "fst (readData queueWire ?s1)" "pressure (snd (readData queueWire ?s1)) = - 6.25"
    "temperature (snd (readData queueWire ?s1)) = - 50"
    by (simp_all add: readData_queueWire [OF b1] Let_def extractStatus_def extractIntegerPressure_def
        extractIntegerTemperature_def convert_identity c1 transferPressure_def transferTemperature_def
        FULL_SCALE_REF_value ERROR_def)
  show ?thesis
    using first second by blast
qed

end
